theory Spec2Isabelle
  imports Main
begin

section \<open>Run-time values\<close>

text \<open>
  The adapter of \<^verbatim>\<open>packages/rspack/src/config/adapter.ts\<close> is TypeScript: its
  types are erased when it runs, and its guards (\<^verbatim>\<open>typeof\<close>, \<^verbatim>\<open>instanceof\<close>,
  \<^verbatim>\<open>Array.isArray\<close>, the truthiness test of \<^verbatim>\<open>c ? a : b\<close>) inspect run-time
  values. The values a condition can be at run time are modelled by \<open>jsval\<close>:
  the primitives, a regular expression with its source text and its flags, an array,
  a plain object as the list of its own properties in enumeration order, and a function
  (an object that is neither an array, a pattern nor a plain object; its body is not
  modelled). Numbers are integers here: the adapter never computes with them.
\<close>

datatype RegExp = RegExp (source: string) (flags: string)

datatype jsval =
    JUndefined
  | JNull
  | JBool bool
  | JNum int
  | JStr string
  | JRegExp RegExp
  | JArray "jsval list"
  | JObject "(string \<times> jsval) list"
  | JFunction

text \<open>\<^verbatim>\<open>typeof v\<close>.\<close>

fun typeof :: "jsval \<Rightarrow> string" where
  "typeof JUndefined = ''undefined''"
| "typeof JNull = ''object''"
| "typeof (JBool b) = ''boolean''"
| "typeof (JNum n) = ''number''"
| "typeof (JStr s) = ''string''"
| "typeof (JRegExp re) = ''object''"
| "typeof (JArray xs) = ''object''"
| "typeof (JObject ps) = ''object''"
| "typeof JFunction = ''function''"

text \<open>\<^verbatim>\<open>v instanceof RegExp\<close>, \<^verbatim>\<open>Array.isArray(v)\<close> and \<^verbatim>\<open>v instanceof Object\<close>:
  every object, a function included, is an instance of \<^verbatim>\<open>Object\<close>; no primitive is.\<close>

fun instanceof_RegExp :: "jsval \<Rightarrow> bool" where
  "instanceof_RegExp (JRegExp re) = True"
| "instanceof_RegExp v = False"

fun Array_isArray :: "jsval \<Rightarrow> bool" where
  "Array_isArray (JArray xs) = True"
| "Array_isArray v = False"

fun instanceof_Object :: "jsval \<Rightarrow> bool" where
  "instanceof_Object (JRegExp re) = True"
| "instanceof_Object (JArray xs) = True"
| "instanceof_Object (JObject ps) = True"
| "instanceof_Object JFunction = True"
| "instanceof_Object v = False"

text \<open>The truthiness test of a conditional expression: \<^verbatim>\<open>undefined\<close>, \<^verbatim>\<open>null\<close>,
  \<^verbatim>\<open>false\<close>, \<^verbatim>\<open>0\<close> and the empty string are falsy, every object is truthy.\<close>

fun truthy :: "jsval \<Rightarrow> bool" where
  "truthy JUndefined = False"
| "truthy JNull = False"
| "truthy (JBool b) = b"
| "truthy (JNum n) = (n \<noteq> 0)"
| "truthy (JStr s) = (s \<noteq> [])"
| "truthy (JRegExp re) = True"
| "truthy (JArray xs) = True"
| "truthy (JObject ps) = True"
| "truthy JFunction = True"

text \<open>The payload of a string, the pattern of a \<^verbatim>\<open>RegExp\<close> value, the elements of an
  array. Each is read only under the guard that establishes the shape.\<close>

fun string_of :: "jsval \<Rightarrow> string" where
  "string_of (JStr s) = s"
| "string_of v = []"

fun regexp_of :: "jsval \<Rightarrow> RegExp" where
  "regexp_of (JRegExp re) = re"
| "regexp_of v = RegExp [] []"

fun elements :: "jsval \<Rightarrow> jsval list" where
  "elements (JArray xs) = xs"
| "elements v = []"

text \<open>Reading the property \<open>k\<close> of a value that is neither \<^verbatim>\<open>undefined\<close> nor
  \<^verbatim>\<open>null\<close>, for the names \<^verbatim>\<open>and\<close>, \<^verbatim>\<open>or\<close> and \<^verbatim>\<open>not\<close>, which no
  prototype defines: an own property of a plain object, \<^verbatim>\<open>undefined\<close> otherwise.\<close>

fun get_prop :: "jsval \<Rightarrow> string \<Rightarrow> jsval" where
  "get_prop (JObject ps) k = (case map_of ps k of Some v \<Rightarrow> v | None \<Rightarrow> JUndefined)"
| "get_prop v k = JUndefined"

section \<open>Errors\<close>

text \<open>
  Every \<^verbatim>\<open>throw\<close> is a value: \<open>AssertionError m\<close> is what Node's
  \<^verbatim>\<open>assert(value, message)\<close> throws on a falsy value (\<open>m\<close> is the message the call
  passes, \<open>None\<close> when it passes none), \<open>Error m\<close> is \<^verbatim>\<open>throw new Error(m)\<close>,
  \<open>TypeError m\<close> is what the engine throws when a property of \<^verbatim>\<open>undefined\<close> is read
  or a value that is not a function is called, and \<open>Thrown v\<close> is whatever the
  loader-chain collaborator throws.
\<close>

datatype error =
    AssertionError "string option"
  | Error string
  | TypeError string
  | Thrown jsval

definition assert :: "bool \<Rightarrow> string option \<Rightarrow> error + unit" where
  "assert v message = (if v then Inr () else Inl (AssertionError message))"

text \<open>\<^verbatim>\<open>xs.map(f)\<close> where \<open>f\<close> may throw: the elements are visited from the left and
  the first exception ends the call.\<close>

fun array_map :: "('a \<Rightarrow> error + 'b) \<Rightarrow> 'a list \<Rightarrow> error + 'b list" where
  "array_map f [] = Inr []"
| "array_map f (x # xs) =
     (case f x of
        Inl e \<Rightarrow> Inl e
      | Inr y \<Rightarrow> (case array_map f xs of Inl e \<Rightarrow> Inl e | Inr ys \<Rightarrow> Inr (y # ys)))"

lemma array_map_cong [fundef_cong]:
  "xs = ys \<Longrightarrow> (\<And>x. x \<in> set ys \<Longrightarrow> f x = g x) \<Longrightarrow> array_map f xs = array_map g ys"
  by (induction ys arbitrary: xs) (auto split: sum.splits)

section \<open>Rule conditions\<close>

text \<open>
  \<^verbatim>\<open>RawRuleSetCondition\<close> and \<^verbatim>\<open>RawRuleSetLogicalConditions\<close> of the binding: a type
  tag and four optional payloads, and three optional keys. A key whose value is
  \<^verbatim>\<open>undefined\<close> is an absent key for the engine, so an optional key is an \<open>option\<close>
  and \<^verbatim>\<open>undefined\<close> is \<open>None\<close>.
\<close>

datatype RawRuleSetCondition = RawRuleSetCondition
    (cond_type: string)
    (stringMatcher: "string option")
    (regexpMatcher: "string option")
    (arrayMatcher: "RawRuleSetCondition list option")
    (logicalMatcher: "RawRuleSetLogicalConditions list option")
  and RawRuleSetLogicalConditions = RawRuleSetLogicalConditions
    (and_matcher: "RawRuleSetCondition list option")
    (or_matcher: "RawRuleSetCondition list option")
    (not_matcher: "RawRuleSetCondition option")

text \<open>The four object literals of \<^verbatim>\<open>getRawRuleSetCondition\<close>.\<close>

definition raw_string :: "string \<Rightarrow> RawRuleSetCondition" where
  "raw_string s = RawRuleSetCondition ''string'' (Some s) None None None"

definition raw_regexp :: "string \<Rightarrow> RawRuleSetCondition" where
  "raw_regexp s = RawRuleSetCondition ''regexp'' None (Some s) None None"

definition raw_array :: "RawRuleSetCondition list \<Rightarrow> RawRuleSetCondition" where
  "raw_array cs = RawRuleSetCondition ''array'' None None (Some cs) None"

definition raw_logical :: "RawRuleSetLogicalConditions list \<Rightarrow> RawRuleSetCondition" where
  "raw_logical ls = RawRuleSetCondition ''logical'' None None None (Some ls)"

definition unreachable :: error where
  "unreachable = Error ''unreachable: condition should be one of string, RegExp, Array, Object''"

text \<open>\<^verbatim>\<open>v ? v.map(i => f(i)) : undefined\<close>: a falsy \<open>v\<close> gives an absent key, an
  array is mapped, and any other truthy value has no \<^verbatim>\<open>map\<close> to call.\<close>

definition map_if_truthy ::
  "string \<Rightarrow> (jsval \<Rightarrow> error + 'b) \<Rightarrow> jsval \<Rightarrow> error + 'b list option" where
  "map_if_truthy name f v =
     (if truthy v then
        (if Array_isArray v then
           (case array_map f (elements v) of Inl e \<Rightarrow> Inl e | Inr ys \<Rightarrow> Inr (Some ys))
         else Inl (TypeError (name @ ''.map is not a function'')))
      else Inr None)"

lemma map_if_truthy_cong [fundef_cong]:
  "v = w \<Longrightarrow> n = m \<Longrightarrow> (\<And>x. Array_isArray w \<Longrightarrow> x \<in> set (elements w) \<Longrightarrow> f x = g x)
   \<Longrightarrow> map_if_truthy n f v = map_if_truthy m g w"
  unfolding map_if_truthy_def by (auto cong: array_map_cong split: sum.splits)

lemma size_elements: "x \<in> set (elements v) \<Longrightarrow> size x < size v"
  by (cases v) (auto simp: less_Suc_eq_le size_list_estimation')

lemma size_map_of: "map_of ps k = Some v \<Longrightarrow> size v < Suc (size_list (size_prod (\<lambda>_. 0) size) ps)"
  by (induction ps) (auto split: if_splits)

lemma size_get_prop: "size (get_prop c k) \<le> size c"
  by (cases c) (auto split: option.splits dest!: size_map_of)

lemma size_get_prop_truthy: "truthy (get_prop c k) \<Longrightarrow> size (get_prop c k) < size c"
  by (cases c) (auto split: option.splits dest!: size_map_of)

text \<open>
  \<^verbatim>\<open>getRawRuleSetCondition\<close> and \<^verbatim>\<open>getRawRuleSetLogicalConditions\<close>. The first is the
  \<^verbatim>\<open>if\<close> chain of the source, guard by guard, ending in the \<^verbatim>\<open>throw\<close>. The second
  builds its object literal key by key, \<^verbatim>\<open>and\<close>, \<^verbatim>\<open>or\<close>, then \<^verbatim>\<open>not\<close>, each
  guarded by the truthiness of the property it reads; reading a property of
  \<^verbatim>\<open>undefined\<close> or \<^verbatim>\<open>null\<close> throws.
\<close>

function getRawRuleSetCondition :: "jsval \<Rightarrow> error + RawRuleSetCondition"
  and getRawRuleSetLogicalConditions :: "jsval \<Rightarrow> error + RawRuleSetLogicalConditions" where
  "getRawRuleSetCondition condition =
     (if typeof condition = ''string'' then Inr (raw_string (string_of condition))
      else if instanceof_RegExp condition then Inr (raw_regexp (source (regexp_of condition)))
      else if Array_isArray condition then
        (case array_map getRawRuleSetCondition (elements condition) of
           Inl e \<Rightarrow> Inl e
         | Inr cs \<Rightarrow> Inr (raw_array cs))
      else if instanceof_Object condition \<and> condition \<noteq> JNull then
        (case getRawRuleSetLogicalConditions condition of
           Inl e \<Rightarrow> Inl e
         | Inr l \<Rightarrow> Inr (raw_logical [l]))
      else Inl unreachable)"
| "getRawRuleSetLogicalConditions logical =
     (if logical = JUndefined \<or> logical = JNull then
        Inl (TypeError ''Cannot read properties of undefined or null'')
      else
        (case map_if_truthy ''logical.and'' getRawRuleSetCondition (get_prop logical ''and'') of
           Inl e \<Rightarrow> Inl e
         | Inr a \<Rightarrow>
        (case map_if_truthy ''logical.or'' getRawRuleSetCondition (get_prop logical ''or'') of
           Inl e \<Rightarrow> Inl e
         | Inr b \<Rightarrow>
        (case (if truthy (get_prop logical ''not'')
               then map_sum id Some (getRawRuleSetCondition (get_prop logical ''not''))
               else Inr None) of
           Inl e \<Rightarrow> Inl e
         | Inr n \<Rightarrow> Inr (RawRuleSetLogicalConditions a b n)))))"
  by pat_completeness auto
termination
  apply (relation "measure (\<lambda>x. case x of Inl c \<Rightarrow> 2 * size c + 1 | Inr l \<Rightarrow> 2 * size l)")
  apply simp
  apply (simp add: size_elements)
  apply simp
  subgoal for logical x
    using size_elements [of x "get_prop logical ''and''"] size_get_prop [of logical "''and''"]
    by simp
  subgoal for logical a x
    using size_elements [of x "get_prop logical ''or''"] size_get_prop [of logical "''or''"]
    by simp
  subgoal for logical a b
    using size_get_prop_truthy [of logical "''not''"] by simp
  done

declare getRawRuleSetCondition.simps [simp del]
declare getRawRuleSetLogicalConditions.simps [simp del]

lemma size_get_prop_object: "size (get_prop (JObject ps) k) < size (JObject ps)"
  by (auto split: option.splits dest!: size_map_of)

text \<open>
  Modelled from the spec: the type \<^verbatim>\<open>RuleSetCondition\<close> of \<^verbatim>\<open>./types\<close>, which is not
  among the sources. A condition is a literal text, a pattern, an ordered list of
  conditions, or a logical-combination object whose optional \<^verbatim>\<open>and\<close> and \<^verbatim>\<open>or\<close>
  are ordered lists of conditions and whose optional \<^verbatim>\<open>not\<close> is one condition.
\<close>

function is_condition :: "jsval \<Rightarrow> bool" where
  "is_condition (JStr s) = True"
| "is_condition (JRegExp re) = True"
| "is_condition (JArray cs) = list_all is_condition cs"
| "is_condition (JObject ps) =
     ((get_prop (JObject ps) ''and'' = JUndefined \<or>
         Array_isArray (get_prop (JObject ps) ''and'') \<and>
         list_all is_condition (elements (get_prop (JObject ps) ''and''))) \<and>
      (get_prop (JObject ps) ''or'' = JUndefined \<or>
         Array_isArray (get_prop (JObject ps) ''or'') \<and>
         list_all is_condition (elements (get_prop (JObject ps) ''or''))) \<and>
      (get_prop (JObject ps) ''not'' = JUndefined \<or>
         is_condition (get_prop (JObject ps) ''not'')))"
| "is_condition JUndefined = False"
| "is_condition JNull = False"
| "is_condition (JBool b) = False"
| "is_condition (JNum n) = False"
| "is_condition JFunction = False"
  by pat_completeness auto
termination
proof (relation "measure size")
  show "wf (measure size)" by simp
next
  fix cs :: "jsval list" and x
  assume "x \<in> set cs"
  then show "(x, JArray cs) \<in> measure size"
    using size_elements [of x "JArray cs"] by simp
next
  fix ps x
  assume "x \<in> set (elements (get_prop (JObject ps) ''and''))"
  then show "(x, JObject ps) \<in> measure size"
    using size_elements [of x "get_prop (JObject ps) ''and''"]
      size_get_prop_object [of ps "''and''"] by simp
next
  fix ps x
  assume "x \<in> set (elements (get_prop (JObject ps) ''or''))"
  then show "(x, JObject ps) \<in> measure size"
    using size_elements [of x "get_prop (JObject ps) ''or''"]
      size_get_prop_object [of ps "''or''"] by simp
next
  fix ps
  show "(get_prop (JObject ps) ''not'', JObject ps) \<in> measure size"
    using size_get_prop_object [of ps "''not''"] by simp
qed

text \<open>The shape that is a plain object: an object that is neither a pattern, an array
  nor a function.\<close>

fun is_plain_object :: "jsval \<Rightarrow> bool" where
  "is_plain_object (JObject ps) = True"
| "is_plain_object v = False"

section \<open>Module rules\<close>

text \<open>Sequencing of two steps either of which may throw: the second runs on the value
  of the first, and the first exception is the result.\<close>

definition sum_bind :: "error + 'a \<Rightarrow> ('a \<Rightarrow> error + 'b) \<Rightarrow> error + 'b" where
  "sum_bind m f = (case m of Inl e \<Rightarrow> Inl e | Inr x \<Rightarrow> f x)"

lemma sum_bind_cong [fundef_cong]:
  "m = m' \<Longrightarrow> (\<And>x. m' = Inr x \<Longrightarrow> f x = g x) \<Longrightarrow> sum_bind m f = sum_bind m' g"
  by (auto simp: sum_bind_def split: sum.splits)

text \<open>\<^verbatim>\<open>c ? getRawRuleSetCondition(c) : undefined\<close>.\<close>

definition encode_if_truthy :: "jsval \<Rightarrow> error + RawRuleSetCondition option" where
  "encode_if_truthy c =
     (if truthy c then map_sum id Some (getRawRuleSetCondition c) else Inr None)"

text \<open>
  What the six condition fields of a compiled rule are measured against: the output has the
  field exactly when the input's is truthy, and then it holds the encoding of the input's.
\<close>

definition field_kept :: "jsval \<Rightarrow> RawRuleSetCondition option \<Rightarrow> bool" where
  "field_kept c r =
     (case r of
        None \<Rightarrow> \<not> truthy c
      | Some x \<Rightarrow> truthy c \<and> getRawRuleSetCondition c = Inr x)"

text \<open>\<^verbatim>\<open>v ?? d\<close>.\<close>

definition nullish_coalesce :: "jsval \<Rightarrow> jsval \<Rightarrow> jsval" where
  "nullish_coalesce v d = (if v = JUndefined \<or> v = JNull then d else v)"

text \<open>
  A \<^verbatim>\<open>RuleSetRule\<close> as \<^verbatim>\<open>getRawModuleRule\<close> reads it. The six condition fields and the
  fields that are copied or handed to the loader-chain collaborator are run-time values,
  \<open>JUndefined\<close> when the rule does not have the field; \<^verbatim>\<open>oneOf\<close> is an optional list
  of rules (an array is truthy, also when it is empty). \<open>'u RawModuleRule\<close> is the object
  literal the function returns, \<open>'u\<close> being the collaborator's chain representation.
\<close>

datatype RuleSetRule = RuleSetRule
  (rule_test: jsval)
  (rule_include: jsval)
  (rule_exclude: jsval)
  (rule_resource: jsval)
  (rule_resourceQuery: jsval)
  (rule_sideEffects: jsval)
  (rule_use: jsval)
  (rule_type: jsval)
  (rule_parser: jsval)
  (rule_generator: jsval)
  (rule_resolve: jsval)
  (rule_issuer: jsval)
  (rule_oneOf: "RuleSetRule list option")

datatype 'u RawModuleRule = RawModuleRule
  (raw_test: "RawRuleSetCondition option")
  (raw_include: "RawRuleSetCondition option")
  (raw_exclude: "RawRuleSetCondition option")
  (raw_resource: "RawRuleSetCondition option")
  (raw_resourceQuery: "RawRuleSetCondition option")
  (raw_sideEffects: jsval)
  (raw_use: 'u)
  (raw_type: jsval)
  (raw_parser: jsval)
  (raw_generator: jsval)
  (raw_resolve: jsval)
  (raw_issuer: "RawRuleSetCondition option")
  (raw_oneOf: "'u RawModuleRule list option")

lemma size_rule_oneOf:
  "rule_oneOf rule = Some rs \<Longrightarrow> i \<in> set rs \<Longrightarrow> size i < size rule"
  using size_list_estimation' [of i rs "size i" size] by (cases rule) auto

text \<open>
  \<^verbatim>\<open>getRawModuleRule\<close>. The properties of the object literal are evaluated in the order
  they are written, so the first condition that cannot be encoded, or the collaborator,
  decides which exception leaves the function. \<open>createRawModuleRuleUses\<close> is the
  collaborator of \<^verbatim>\<open>./adapter-rule-use\<close>, a parameter here: it returns the chain
  representation or throws a value.
\<close>

function getRawModuleRule ::
  "(jsval \<Rightarrow> 'o \<Rightarrow> jsval + 'u) \<Rightarrow> RuleSetRule \<Rightarrow> 'o \<Rightarrow> error + 'u RawModuleRule" where
  "getRawModuleRule createRawModuleRuleUses rule options =
     sum_bind (encode_if_truthy (rule_test rule)) (\<lambda>test.
     sum_bind (encode_if_truthy (rule_include rule)) (\<lambda>incl.
     sum_bind (encode_if_truthy (rule_exclude rule)) (\<lambda>excl.
     sum_bind (encode_if_truthy (rule_resource rule)) (\<lambda>resource.
     sum_bind (encode_if_truthy (rule_resourceQuery rule)) (\<lambda>resourceQuery.
     sum_bind (case createRawModuleRuleUses
                     (nullish_coalesce (rule_use rule) (JArray [])) options of
                 Inl v \<Rightarrow> Inl (Thrown v)
               | Inr u \<Rightarrow> Inr u) (\<lambda>uses.
     sum_bind (encode_if_truthy (rule_issuer rule)) (\<lambda>issuer.
     sum_bind (case rule_oneOf rule of
                 None \<Rightarrow> Inr None
               | Some rs \<Rightarrow>
                   map_sum id Some
                     (array_map (\<lambda>i. getRawModuleRule createRawModuleRuleUses i options) rs))
       (\<lambda>oneOf.
     Inr (RawModuleRule test incl excl resource resourceQuery (rule_sideEffects rule) uses
            (rule_type rule) (rule_parser rule) (rule_generator rule) (rule_resolve rule)
            issuer oneOf)))))))))"
  by pat_completeness auto
termination
  by (relation "measure (\<lambda>(u, rule, opts). size rule)") (auto simp: size_rule_oneOf)

declare getRawModuleRule.simps [simp del]

text \<open>The depth of \<^verbatim>\<open>oneOf\<close> nesting of a rule and of a compiled rule: no \<^verbatim>\<open>oneOf\<close>
  is depth 0, and a \<^verbatim>\<open>oneOf\<close> list is one level above its deepest element.\<close>

function rule_depth :: "RuleSetRule \<Rightarrow> nat" where
  "rule_depth rule =
     (case rule_oneOf rule of
        None \<Rightarrow> 0
      | Some rs \<Rightarrow> Suc (fold max (map rule_depth rs) 0))"
  by pat_completeness auto
termination
  by (relation "measure size") (auto simp: size_rule_oneOf)

declare rule_depth.simps [simp del]

lemma size_raw_oneOf:
  "raw_oneOf raw = Some rs \<Longrightarrow> i \<in> set rs \<Longrightarrow> size i < size raw"
  using size_list_estimation' [of i rs "size i" size] by (cases raw) auto

function raw_depth :: "'u RawModuleRule \<Rightarrow> nat" where
  "raw_depth raw =
     (case raw_oneOf raw of
        None \<Rightarrow> 0
      | Some rs \<Rightarrow> Suc (fold max (map raw_depth rs) 0))"
  by pat_completeness auto
termination
  by (relation "measure size") (auto simp: size_raw_oneOf)

declare raw_depth.simps [simp del]

text \<open>
  Modelled from the spec: the type \<^verbatim>\<open>RuleSetRule\<close> of \<^verbatim>\<open>./types\<close>, which is not among
  the sources. Each condition field of a rule is absent or a condition, and the elements
  of \<^verbatim>\<open>oneOf\<close> are rules.
\<close>

definition optional_condition :: "jsval \<Rightarrow> bool" where
  "optional_condition c = (c = JUndefined \<or> is_condition c)"

function is_rule :: "RuleSetRule \<Rightarrow> bool" where
  "is_rule rule =
     (optional_condition (rule_test rule) \<and>
      optional_condition (rule_include rule) \<and>
      optional_condition (rule_exclude rule) \<and>
      optional_condition (rule_resource rule) \<and>
      optional_condition (rule_resourceQuery rule) \<and>
      optional_condition (rule_issuer rule) \<and>
      (case rule_oneOf rule of None \<Rightarrow> True | Some rs \<Rightarrow> list_all is_rule rs))"
  by pat_completeness auto
termination
  by (relation "measure size") (auto simp: size_rule_oneOf)

declare is_rule.simps [simp del]

section \<open>The module section\<close>

text \<open>
  Modelled from the spec: \<^verbatim>\<open>isNil\<close> of \<^verbatim>\<open>../util\<close>, which is not among the sources. A
  value is nil when it is \<^verbatim>\<open>undefined\<close> or \<^verbatim>\<open>null\<close>: for a typed optional field, when
  it is \<open>None\<close>.
\<close>

definition isNil :: "'a option \<Rightarrow> bool" where
  "isNil v = (v = None)"

text \<open>Spreading or destructuring a value that is \<^verbatim>\<open>undefined\<close> or \<^verbatim>\<open>null\<close> throws a
  \<^verbatim>\<open>TypeError\<close>.\<close>

definition object_of :: "'a option \<Rightarrow> error + 'a" where
  "object_of v =
     (case v of
        None \<Rightarrow> Inl (TypeError ''undefined is not iterable or has no properties'')
      | Some x \<Rightarrow> Inr x)"

text \<open>
  \<^verbatim>\<open>getRawModule\<close>: the assertion on \<^verbatim>\<open>module.defaultRules\<close>, then the rule compiler
  mapped over the default rules followed by the user rules, and the parser configuration
  beside the result. \<^verbatim>\<open>module.rules\<close> is a list: the source spreads it unguarded.
\<close>

record ModuleOptionsNormalized =
  module_defaultRules :: "RuleSetRule list option"
  module_rules :: "RuleSetRule list"
  module_parser :: jsval

record 'u RawModuleOptions =
  raw_rules :: "'u RawModuleRule list"
  raw_module_parser :: jsval

definition getRawModule ::
  "(jsval \<Rightarrow> 'o \<Rightarrow> jsval + 'u) \<Rightarrow> ModuleOptionsNormalized \<Rightarrow> 'o \<Rightarrow> error + 'u RawModuleOptions"
  where
  "getRawModule createRawModuleRuleUses module options =
     sum_bind (assert (\<not> isNil (module_defaultRules module))
                 (Some ''module.defaultRules should not be nil after defaults'')) (\<lambda>_.
     sum_bind (object_of (module_defaultRules module)) (\<lambda>defaultRules.
     sum_bind (array_map (\<lambda>i. getRawModuleRule createRawModuleRuleUses i options)
                 (defaultRules @ module_rules module)) (\<lambda>rules.
     Inr \<lparr>raw_rules = rules, raw_module_parser = module_parser module\<rparr>)))"

section \<open>Objects used as records of named entries\<close>

text \<open>
  An object whose keys are not fixed (the entry map, the cache groups, the externals) is
  the list of its own properties in the order \<^verbatim>\<open>Object.keys\<close> enumerates them; the keys
  of an object are distinct. \<open>set_prop\<close> is the assignment \<^verbatim>\<open>o[k] = v\<close>: it replaces
  the value of a key the object has and appends a key it does not have.
\<close>

fun set_prop :: "string \<Rightarrow> 'v \<Rightarrow> (string \<times> 'v) list \<Rightarrow> (string \<times> 'v) list" where
  "set_prop k v [] = [(k, v)]"
| "set_prop k v (p # ps) = (if fst p = k then (k, v) # ps else p # set_prop k v ps)"

definition Object_keys :: "(string \<times> 'v) list \<Rightarrow> string list" where
  "Object_keys obj = map fst obj"

definition Object_entries :: "(string \<times> 'v) list \<Rightarrow> (string \<times> 'v) list" where
  "Object_entries obj = obj"

definition Object_fromEntries :: "(string \<times> 'v) list \<Rightarrow> (string \<times> 'v) list" where
  "Object_fromEntries entries = fold (\<lambda>e obj. set_prop (fst e) (snd e) obj) entries []"

text \<open>\<^verbatim>\<open>String(v)\<close> for the values that are booleans or strings.\<close>

datatype bool_or_string = BoolValue bool | StringValue string

fun String :: "bool_or_string option \<Rightarrow> string" where
  "String None = ''undefined''"
| "String (Some (BoolValue True)) = ''true''"
| "String (Some (BoolValue False)) = ''false''"
| "String (Some (StringValue s)) = s"

section \<open>The optimization section\<close>

text \<open>
  The records follow the fields the functions read and write; an optional field is an
  \<open>option\<close>. A \<^verbatim>\<open>RegExp\<close> object and a split-chunks object are truthy, so the
  truthiness tests on \<^verbatim>\<open>group.test\<close>, \<^verbatim>\<open>sc.cacheGroups\<close> and
  \<^verbatim>\<open>optimization.splitChunks\<close> are tests for presence.
\<close>

record CacheGroup =
  group_test :: "RegExp option"
  group_name :: "string option"
  group_priority :: "int option"
  group_minChunks :: "int option"
  group_chunks :: "string option"

record RawCacheGroupOptions =
  raw_group_test :: "string option"
  raw_group_name :: "string option"
  raw_group_priority :: "int option"
  raw_group_minChunks :: "int option"
  raw_group_chunks :: "string option"

record OptimizationSplitChunksOptions =
  sc_cacheGroups :: "(string \<times> CacheGroup) list option"
  sc_chunks :: "string option"
  sc_maxAsyncRequests :: "int option"
  sc_maxInitialRequests :: "int option"
  sc_minChunks :: "int option"
  sc_minSize :: "int option"
  sc_enforceSizeThreshold :: "int option"
  sc_minRemainingSize :: "int option"

record RawSplitChunksOptions =
  raw_sc_cacheGroups :: "(string \<times> RawCacheGroupOptions) list option"
  raw_sc_chunks :: "string option"
  raw_sc_maxAsyncRequests :: "int option"
  raw_sc_maxInitialRequests :: "int option"
  raw_sc_minChunks :: "int option"
  raw_sc_minSize :: "int option"
  raw_sc_enforceSizeThreshold :: "int option"
  raw_sc_minRemainingSize :: "int option"

record Optimization =
  opt_splitChunks :: "OptimizationSplitChunksOptions option"
  opt_moduleIds :: "string option"
  opt_removeAvailableModules :: "bool option"
  opt_sideEffects :: "bool_or_string option"

record RawOptimization =
  raw_opt_splitChunks :: "RawSplitChunksOptions option"
  raw_opt_moduleIds :: "string option"
  raw_opt_removeAvailableModules :: "bool option"
  raw_opt_sideEffects :: string

text \<open>The body of the arrow function mapped over the entries of the cache groups.\<close>

definition normalizedGroup :: "CacheGroup \<Rightarrow> RawCacheGroupOptions" where
  "normalizedGroup cacheGroup =
     \<lparr>raw_group_test = (case group_test cacheGroup of None \<Rightarrow> None | Some re \<Rightarrow> Some (source re)),
      raw_group_name = group_name cacheGroup,
      raw_group_priority = group_priority cacheGroup,
      raw_group_minChunks = group_minChunks cacheGroup,
      raw_group_chunks = group_chunks cacheGroup\<rparr>"

definition getRawSplitChunksOptions ::
  "OptimizationSplitChunksOptions \<Rightarrow> RawSplitChunksOptions" where
  "getRawSplitChunksOptions sc =
     \<lparr>raw_sc_cacheGroups =
        (case sc_cacheGroups sc of
           Some cacheGroups \<Rightarrow>
             Some (Object_fromEntries
               (map (\<lambda>e. (fst e, normalizedGroup (snd e))) (Object_entries cacheGroups)))
         | None \<Rightarrow> Some []),
      raw_sc_chunks = sc_chunks sc,
      raw_sc_maxAsyncRequests = sc_maxAsyncRequests sc,
      raw_sc_maxInitialRequests = sc_maxInitialRequests sc,
      raw_sc_minChunks = sc_minChunks sc,
      raw_sc_minSize = sc_minSize sc,
      raw_sc_enforceSizeThreshold = sc_enforceSizeThreshold sc,
      raw_sc_minRemainingSize = sc_minRemainingSize sc\<rparr>"

definition getRawOptimization :: "Optimization \<Rightarrow> error + RawOptimization" where
  "getRawOptimization optimization =
     sum_bind (assert (\<not> isNil (opt_moduleIds optimization) \<and>
                       \<not> isNil (opt_removeAvailableModules optimization) \<and>
                       \<not> isNil (opt_sideEffects optimization))
                 (Some (''optimization.moduleIds, optimization.removeAvailableModules, '' @
                        ''optimization.sideEffects should not be nil after defaults''))) (\<lambda>_.
     Inr \<lparr>raw_opt_splitChunks =
            (case opt_splitChunks optimization of
               Some sc \<Rightarrow> Some (getRawSplitChunksOptions sc)
             | None \<Rightarrow> None),
          raw_opt_moduleIds = opt_moduleIds optimization,
          raw_opt_removeAvailableModules = opt_removeAvailableModules optimization,
          raw_opt_sideEffects = String (opt_sideEffects optimization)\<rparr>)"

section \<open>The scalar sections\<close>

text \<open>\<^verbatim>\<open>getRawEntry\<close>: the loop over \<^verbatim>\<open>Object.keys(entry)\<close>. A \<^verbatim>\<open>runtime\<close> is
  \<^verbatim>\<open>false\<close> or a name.\<close>

datatype EntryRuntime = RuntimeFalse | RuntimeName string

record EntryDescriptionNormalized =
  entry_import :: "string list option"
  entry_runtime :: "EntryRuntime option"

record RawEntryItem =
  raw_import :: "string list option"
  raw_runtime :: "string option"

text \<open>The object literal assigned to \<^verbatim>\<open>raw[key]\<close>: the import list as it is (the
  non-null assertion \<^verbatim>\<open>import!\<close> checks nothing at run time) and the runtime name, a
  \<^verbatim>\<open>false\<close> runtime becoming \<^verbatim>\<open>undefined\<close>.\<close>

definition rawEntryItem :: "EntryDescriptionNormalized \<Rightarrow> RawEntryItem" where
  "rawEntryItem description =
     \<lparr>raw_import = entry_import description,
      raw_runtime =
        (case entry_runtime description of
           Some (RuntimeName runtime) \<Rightarrow> Some runtime
         | Some RuntimeFalse \<Rightarrow> None
         | None \<Rightarrow> None)\<rparr>"

fun getRawEntry_loop ::
  "(string \<times> EntryDescriptionNormalized) list \<Rightarrow> string list \<Rightarrow>
   (string \<times> RawEntryItem) list \<Rightarrow> error + (string \<times> RawEntryItem) list" where
  "getRawEntry_loop entry [] raw = Inr raw"
| "getRawEntry_loop entry (key # keys) raw =
     sum_bind (object_of (map_of entry key)) (\<lambda>description.
     getRawEntry_loop entry keys (set_prop key (rawEntryItem description) raw))"

definition getRawEntry ::
  "(string \<times> EntryDescriptionNormalized) list \<Rightarrow> error + (string \<times> RawEntryItem) list" where
  "getRawEntry entry = getRawEntry_loop entry (Object_keys entry) []"

text \<open>\<^verbatim>\<open>getRawTarget\<close>: a target is \<^verbatim>\<open>false\<close>, a string or a list of strings;
  \<^verbatim>\<open>undefined\<close>, \<^verbatim>\<open>false\<close> and the empty string are falsy.\<close>

datatype Target = TargetFalse | TargetString string | TargetArray "string list"

fun getRawTarget :: "Target option \<Rightarrow> string list" where
  "getRawTarget None = []"
| "getRawTarget (Some TargetFalse) = []"
| "getRawTarget (Some (TargetString target)) = (if target = [] then [] else [target])"
| "getRawTarget (Some (TargetArray target)) = target"

text \<open>\<^verbatim>\<open>getRawOutput\<close>.\<close>

record OutputNormalized =
  output_path :: "string option"
  output_publicPath :: "string option"
  output_assetModuleFilename :: "string option"
  output_filename :: "string option"
  output_chunkFilename :: "string option"
  output_cssFilename :: "string option"
  output_cssChunkFilename :: "string option"
  output_uniqueName :: "string option"
  output_library :: jsval
  output_strictModuleErrorHandling :: "bool option"

record RawOutput =
  raw_path :: "string option"
  raw_publicPath :: "string option"
  raw_assetModuleFilename :: "string option"
  raw_filename :: "string option"
  raw_chunkFilename :: "string option"
  raw_cssFilename :: "string option"
  raw_cssChunkFilename :: "string option"
  raw_uniqueName :: "string option"
  raw_library :: jsval
  raw_strictModuleErrorHandling :: "bool option"

definition getRawOutput :: "OutputNormalized \<Rightarrow> error + RawOutput" where
  "getRawOutput output =
     sum_bind (assert (\<not> isNil (output_path output) \<and>
                       \<not> isNil (output_publicPath output) \<and>
                       \<not> isNil (output_assetModuleFilename output) \<and>
                       \<not> isNil (output_filename output) \<and>
                       \<not> isNil (output_chunkFilename output) \<and>
                       \<not> isNil (output_cssFilename output) \<and>
                       \<not> isNil (output_cssChunkFilename output) \<and>
                       \<not> isNil (output_uniqueName output) \<and>
                       \<not> isNil (output_strictModuleErrorHandling output))
                 (Some ''fields should not be nil after defaults'')) (\<lambda>_.
     Inr \<lparr>raw_path = output_path output,
          raw_publicPath = output_publicPath output,
          raw_assetModuleFilename = output_assetModuleFilename output,
          raw_filename = output_filename output,
          raw_chunkFilename = output_chunkFilename output,
          raw_cssFilename = output_cssFilename output,
          raw_cssChunkFilename = output_cssChunkFilename output,
          raw_uniqueName = output_uniqueName output,
          raw_library = output_library output,
          raw_strictModuleErrorHandling = output_strictModuleErrorHandling output\<rparr>)"

text \<open>\<^verbatim>\<open>getRawExternals\<close>: the externals are one name or a record of names.\<close>

datatype Externals = ExternalsString string | ExternalsRecord "(string \<times> string) list"

fun getRawExternals :: "Externals \<Rightarrow> (string \<times> string) list" where
  "getRawExternals (ExternalsString externals) = [(externals, externals)]"
| "getRawExternals (ExternalsRecord externals) = externals"

text \<open>\<^verbatim>\<open>getRawSnapshotOptions\<close>: two assertions, neither with a message.\<close>

record SnapshotSection =
  snapshot_timestamp :: "bool option"
  snapshot_hash :: "bool option"

record SnapshotOptions =
  snapshot_resolve :: "SnapshotSection option"
  snapshot_module :: "SnapshotSection option"

record RawSnapshotOptions =
  raw_snapshot_resolve :: SnapshotSection
  raw_snapshot_module :: SnapshotSection

definition getRawSnapshotOptions :: "SnapshotOptions \<Rightarrow> error + RawSnapshotOptions" where
  "getRawSnapshotOptions snapshot =
     sum_bind (assert (\<not> isNil (snapshot_resolve snapshot) \<and>
                       \<not> isNil (snapshot_module snapshot)) None) (\<lambda>_.
     sum_bind (object_of (snapshot_resolve snapshot)) (\<lambda>resolve.
     sum_bind (object_of (snapshot_module snapshot)) (\<lambda>module.
     sum_bind (assert (\<not> isNil (snapshot_timestamp resolve) \<and>
                       \<not> isNil (snapshot_hash resolve) \<and>
                       \<not> isNil (snapshot_timestamp module) \<and>
                       \<not> isNil (snapshot_hash module)) None) (\<lambda>_.
     Inr \<lparr>raw_snapshot_resolve =
            \<lparr>snapshot_timestamp = snapshot_timestamp resolve,
             snapshot_hash = snapshot_hash resolve\<rparr>,
          raw_snapshot_module =
            \<lparr>snapshot_timestamp = snapshot_timestamp module,
             snapshot_hash = snapshot_hash module\<rparr>\<rparr>))))"

text \<open>\<^verbatim>\<open>getRawExperiments\<close> and \<^verbatim>\<open>getRawNode\<close>: one assertion each, without a
  message.\<close>

record Experiments =
  lazyCompilation :: "bool option"
  incrementalRebuild :: "bool option"

definition getRawExperiments :: "Experiments \<Rightarrow> error + Experiments" where
  "getRawExperiments experiments =
     sum_bind (assert (\<not> isNil (lazyCompilation experiments) \<and>
                       \<not> isNil (incrementalRebuild experiments)) None) (\<lambda>_.
     Inr \<lparr>lazyCompilation = lazyCompilation experiments,
          incrementalRebuild = incrementalRebuild experiments\<rparr>)"

record Node =
  node_dirname :: "bool_or_string option"

record RawNode =
  raw_dirname :: string

definition getRawNode :: "Node \<Rightarrow> error + RawNode" where
  "getRawNode node =
     sum_bind (assert (\<not> isNil (node_dirname node)) None) (\<lambda>_.
     Inr \<lparr>raw_dirname = String (node_dirname node)\<rparr>)"

text \<open>The fields the output assertion and the snapshot assertions require: all nine of
  the output section, and the timestamp and hash flags of a snapshot section that is
  itself present.\<close>

definition output_complete :: "OutputNormalized \<Rightarrow> bool" where
  "output_complete output =
     (output_path output \<noteq> None \<and>
      output_publicPath output \<noteq> None \<and>
      output_assetModuleFilename output \<noteq> None \<and>
      output_filename output \<noteq> None \<and>
      output_chunkFilename output \<noteq> None \<and>
      output_cssFilename output \<noteq> None \<and>
      output_cssChunkFilename output \<noteq> None \<and>
      output_uniqueName output \<noteq> None \<and>
      output_strictModuleErrorHandling output \<noteq> None)"

definition section_complete :: "SnapshotSection option \<Rightarrow> bool" where
  "section_complete s =
     (case s of
        None \<Rightarrow> False
      | Some sec \<Rightarrow> snapshot_timestamp sec \<noteq> None \<and> snapshot_hash sec \<noteq> None)"

section \<open>Sample inputs\<close>

text \<open>Rules and a loader-chain collaborator on which the theorems below are instantiated:
  a rule whose \<^verbatim>\<open>test\<close> is the empty string, a rule for scripts, a rule that nests both
  under \<^verbatim>\<open>oneOf\<close>, and a collaborator that returns its argument.\<close>

abbreviation empty_string_rule :: RuleSetRule where
  "empty_string_rule \<equiv>
     RuleSetRule (JStr []) JUndefined JUndefined JUndefined JUndefined
       JUndefined JUndefined JUndefined JUndefined JUndefined JUndefined JUndefined None"

abbreviation script_rule :: RuleSetRule where
  "script_rule \<equiv>
     RuleSetRule (JRegExp (RegExp ''[.]js$'' ''i'')) JUndefined (JStr ''node_modules'')
       JUndefined JUndefined
       (JBool False) JUndefined (JStr ''javascript/auto'') JUndefined JUndefined JUndefined
       JUndefined None"

abbreviation nested_rule :: RuleSetRule where
  "nested_rule \<equiv>
     RuleSetRule JUndefined JUndefined JUndefined JUndefined JUndefined
       JUndefined JUndefined JUndefined JUndefined JUndefined JUndefined JUndefined
       (Some [script_rule, empty_string_rule])"

abbreviation echo_uses :: "jsval \<Rightarrow> unit \<Rightarrow> jsval + jsval" where
  "echo_uses \<equiv> \<lambda>v opts. Inr v"

text \<open>The compiled script rule and empty-string rule, and two module sections: one after
  defaulting, whose user rules repeat a default rule, and one whose default rules are
  missing.\<close>

abbreviation raw_script_rule :: "jsval RawModuleRule" where
  "raw_script_rule \<equiv>
     RawModuleRule (Some (RawRuleSetCondition ''regexp'' None (Some ''[.]js$'') None None)) None
       (Some (RawRuleSetCondition ''string'' (Some ''node_modules'') None None None)) None None
       (JBool False) (JArray []) (JStr ''javascript/auto'') JUndefined JUndefined JUndefined
       None None"

abbreviation raw_empty_string_rule :: "jsval RawModuleRule" where
  "raw_empty_string_rule \<equiv>
     RawModuleRule None None None None None JUndefined (JArray []) JUndefined JUndefined
       JUndefined JUndefined None None"

abbreviation sample_module :: ModuleOptionsNormalized where
  "sample_module \<equiv>
     \<lparr>module_defaultRules = Some [script_rule, empty_string_rule],
      module_rules = [script_rule],
      module_parser = JStr ''parser''\<rparr>"

abbreviation undefaulted_module :: ModuleOptionsNormalized where
  "undefaulted_module \<equiv>
     \<lparr>module_defaultRules = None,
      module_rules = [script_rule],
      module_parser = JStr ''parser''\<rparr>"

text \<open>A cache group named \<^verbatim>\<open>vendors\<close>, split-chunks options with that group and
  without cache groups, an optimization section after defaulting, and an output section
  that is complete but for its path.\<close>

abbreviation vendors_group :: CacheGroup where
  "vendors_group \<equiv>
     \<lparr>group_test = Some (RegExp ''node_modules'' ''i''), group_name = Some ''vendors'',
      group_priority = Some 10, group_minChunks = Some 1, group_chunks = Some ''all''\<rparr>"

abbreviation vendors_splitChunks :: OptimizationSplitChunksOptions where
  "vendors_splitChunks \<equiv>
     \<lparr>sc_cacheGroups = Some [(''vendors'', vendors_group)], sc_chunks = Some ''all'',
      sc_maxAsyncRequests = None, sc_maxInitialRequests = None, sc_minChunks = Some 1,
      sc_minSize = None, sc_enforceSizeThreshold = None, sc_minRemainingSize = None\<rparr>"

abbreviation bare_splitChunks :: OptimizationSplitChunksOptions where
  "bare_splitChunks \<equiv>
     \<lparr>sc_cacheGroups = None, sc_chunks = Some ''all'',
      sc_maxAsyncRequests = None, sc_maxInitialRequests = None, sc_minChunks = Some 1,
      sc_minSize = None, sc_enforceSizeThreshold = None, sc_minRemainingSize = None\<rparr>"

abbreviation sample_optimization ::
  "OptimizationSplitChunksOptions option \<Rightarrow> Optimization" where
  "sample_optimization sc \<equiv>
     \<lparr>opt_splitChunks = sc, opt_moduleIds = Some ''named'',
      opt_removeAvailableModules = Some True, opt_sideEffects = Some (BoolValue True)\<rparr>"

abbreviation sample_output :: "string option \<Rightarrow> OutputNormalized" where
  "sample_output path \<equiv>
     \<lparr>output_path = path, output_publicPath = Some ''/'',
      output_assetModuleFilename = Some ''[hash][ext]'', output_filename = Some ''[name].js'',
      output_chunkFilename = Some ''[id].js'', output_cssFilename = Some ''[name].css'',
      output_cssChunkFilename = Some ''[id].css'', output_uniqueName = Some ''app'',
      output_library = JUndefined, output_strictModuleErrorHandling = Some False\<rparr>"

section \<open>Properties of the condition encoder\<close>

lemma array_map_Inr_iff:
  "array_map f xs = Inr ys \<longleftrightarrow> list_all2 (\<lambda>x y. f x = Inr y) xs ys"
proof (induction xs arbitrary: ys)
  case Nil
  show ?case by auto
next
  case (Cons x xs)
  show ?case
  proof (cases "f x")
    case (Inl e)
    then show ?thesis by (auto simp: list_all2_Cons1)
  next
    case (Inr y)
    then show ?thesis
      using Cons.IH by (cases "array_map f xs") (auto simp: list_all2_Cons1)
  qed
qed

lemma array_map_total:
  "(\<And>x. x \<in> set xs \<Longrightarrow> \<exists>y. f x = Inr y) \<Longrightarrow> \<exists>ys. array_map f xs = Inr ys"
proof (induction xs)
  case Nil
  show ?case by simp
next
  case (Cons x xs)
  from Cons.prems obtain y where "f x = Inr y" by auto
  moreover from Cons obtain ys where "array_map f xs = Inr ys" by auto
  ultimately show ?case by simp
qed

lemma map_if_truthy_total:
  "v = JUndefined \<or> Array_isArray v \<and> (\<forall>x\<in>set (elements v). \<exists>y. f x = Inr y)
   \<Longrightarrow> \<exists>r. map_if_truthy n f v = Inr r"
  unfolding map_if_truthy_def using array_map_total [of "elements v" f]
  by (auto split: sum.splits)

text \<open>The encoder on each shape of value, one equation per branch of its \<^verbatim>\<open>if\<close> chain.\<close>

lemma getRawRuleSetCondition_JStr [simp]:
  "getRawRuleSetCondition (JStr s) = Inr (raw_string s)"
  by (simp add: getRawRuleSetCondition.simps)

lemma getRawRuleSetCondition_JRegExp [simp]:
  "getRawRuleSetCondition (JRegExp re) = Inr (raw_regexp (source re))"
  by (simp add: getRawRuleSetCondition.simps)

lemma getRawRuleSetCondition_JArray [simp]:
  "getRawRuleSetCondition (JArray cs) =
     (case array_map getRawRuleSetCondition cs of Inl e \<Rightarrow> Inl e | Inr rs \<Rightarrow> Inr (raw_array rs))"
  by (simp add: getRawRuleSetCondition.simps)

lemma getRawRuleSetCondition_JObject [simp]:
  "getRawRuleSetCondition (JObject ps) =
     (case getRawRuleSetLogicalConditions (JObject ps) of
        Inl e \<Rightarrow> Inl e | Inr l \<Rightarrow> Inr (raw_logical [l]))"
  by (simp add: getRawRuleSetCondition.simps)

lemma getRawRuleSetCondition_JFunction [simp]:
  "getRawRuleSetCondition JFunction =
     (case getRawRuleSetLogicalConditions JFunction of
        Inl e \<Rightarrow> Inl e | Inr l \<Rightarrow> Inr (raw_logical [l]))"
  by (simp add: getRawRuleSetCondition.simps)

lemma getRawRuleSetCondition_primitive [simp]:
  "getRawRuleSetCondition JUndefined = Inl unreachable"
  "getRawRuleSetCondition JNull = Inl unreachable"
  "getRawRuleSetCondition (JBool b) = Inl unreachable"
  "getRawRuleSetCondition (JNum n) = Inl unreachable"
  by (simp_all add: getRawRuleSetCondition.simps)

lemma getRawRuleSetLogicalConditions_JObject:
  "getRawRuleSetLogicalConditions (JObject ps) =
     (case map_if_truthy ''logical.and'' getRawRuleSetCondition (get_prop (JObject ps) ''and'') of
        Inl e \<Rightarrow> Inl e
      | Inr a \<Rightarrow>
     (case map_if_truthy ''logical.or'' getRawRuleSetCondition (get_prop (JObject ps) ''or'') of
        Inl e \<Rightarrow> Inl e
      | Inr b \<Rightarrow>
     (case (if truthy (get_prop (JObject ps) ''not'')
            then map_sum id Some (getRawRuleSetCondition (get_prop (JObject ps) ''not''))
            else Inr None) of
        Inl e \<Rightarrow> Inl e
      | Inr n \<Rightarrow> Inr (RawRuleSetLogicalConditions a b n))))"
  by (subst getRawRuleSetLogicalConditions.simps) simp

text \<open>A well-typed condition is always encoded: neither encoder throws on it.\<close>

lemma encoders_total:
  "is_condition c \<longrightarrow> (\<exists>r. getRawRuleSetCondition c = Inr r)"
  "is_condition l \<and> typeof l = ''object'' \<and> \<not> instanceof_RegExp l \<and> \<not> Array_isArray l
     \<longrightarrow> (\<exists>r. getRawRuleSetLogicalConditions l = Inr r)"
proof (induction c and l rule: getRawRuleSetCondition_getRawRuleSetLogicalConditions.induct)
  case (1 condition)
  show ?case
  proof
    assume wt: "is_condition condition"
    show "\<exists>r. getRawRuleSetCondition condition = Inr r"
    proof (cases condition)
      case (JArray xs)
      with wt 1 have "\<And>x. x \<in> set xs \<Longrightarrow> \<exists>y. getRawRuleSetCondition x = Inr y"
        by (auto simp: list_all_iff)
      then have "\<exists>ys. array_map getRawRuleSetCondition xs = Inr ys"
        by (rule array_map_total)
      with JArray show ?thesis by auto
    next
      case (JObject ps)
      with wt 1 obtain r where "getRawRuleSetLogicalConditions condition = Inr r"
        by auto
      with JObject show ?thesis by auto
    qed (use wt in auto)
  qed
next
  case (2 logical)
  show ?case
  proof
    assume wt: "is_condition logical \<and> typeof logical = ''object'' \<and>
      \<not> instanceof_RegExp logical \<and> \<not> Array_isArray logical"
    then obtain ps where l: "logical = JObject ps" by (cases logical) auto
    let ?a = "get_prop logical ''and''"
    let ?b = "get_prop logical ''or''"
    let ?n = "get_prop logical ''not''"
    from wt l
    have wa: "?a = JUndefined \<or> Array_isArray ?a \<and> list_all is_condition (elements ?a)"
      and wb: "?b = JUndefined \<or> Array_isArray ?b \<and> list_all is_condition (elements ?b)"
      and wn: "?n = JUndefined \<or> is_condition ?n"
      by simp_all
    have "\<exists>a. map_if_truthy ''logical.and'' getRawRuleSetCondition ?a = Inr a"
      using wa "2.IH"(1) l by (intro map_if_truthy_total) (auto simp: list_all_iff)
    then obtain a where a: "map_if_truthy ''logical.and'' getRawRuleSetCondition ?a = Inr a" ..
    have "\<exists>b. map_if_truthy ''logical.or'' getRawRuleSetCondition ?b = Inr b"
      using wb "2.IH"(2) [OF _ a] l by (intro map_if_truthy_total) (auto simp: list_all_iff)
    then obtain b where b: "map_if_truthy ''logical.or'' getRawRuleSetCondition ?b = Inr b" ..
    have "\<exists>n. (if truthy ?n then map_sum id Some (getRawRuleSetCondition ?n) else Inr None)
      = Inr n"
    proof (cases "truthy ?n")
      case True
      with wn have "is_condition ?n" by auto
      with "2.IH"(3) [OF _ a b True] l obtain r where "getRawRuleSetCondition ?n = Inr r"
        by auto
      with True show ?thesis by simp
    qed simp
    then obtain n
      where n: "(if truthy ?n then map_sum id Some (getRawRuleSetCondition ?n) else Inr None)
        = Inr n" ..
    show "\<exists>r. getRawRuleSetLogicalConditions logical = Inr r"
      using l a b n by (subst getRawRuleSetLogicalConditions.simps) simp
  qed
qed

lemma getRawRuleSetCondition_total:
  "is_condition c \<Longrightarrow> \<exists>r. getRawRuleSetCondition c = Inr r"
  using encoders_total(1) by blast

lemma getRawRuleSetLogicalConditions_total:
  "is_condition (JObject ps) \<Longrightarrow> \<exists>l. getRawRuleSetLogicalConditions (JObject ps) = Inr l"
  using encoders_total(2) [of "JObject ps"] by simp

text \<open>
  Claim C1. For every condition, the condition encoder returns the tagged variant of the
  condition's shape. A pattern is encoded as the \<^verbatim>\<open>regexp\<close> variant that carries the
  pattern's source text and nothing of its flags. An ordered list of conditions is encoded
  as the \<^verbatim>\<open>array\<close> variant whose elements are the encodings of the list's elements,
  position by position. A logical-combination object is encoded as the \<^verbatim>\<open>logical\<close>
  variant whose payload is the one-element list holding the encoded logical object. A
  literal text is encoded as the \<^verbatim>\<open>string\<close> variant. In each variant only the payload of
  its tag is set.
\<close>

theorem getRawRuleSetCondition_variants:
  "getRawRuleSetCondition (JRegExp (RegExp src fl)) =
     Inr (RawRuleSetCondition ''regexp'' None (Some src) None None) \<and>
   (is_condition (JArray cs) \<longrightarrow>
     (\<exists>rs. getRawRuleSetCondition (JArray cs) =
             Inr (RawRuleSetCondition ''array'' None None (Some rs) None) \<and>
           length rs = length cs \<and>
           (\<forall>i<length cs. getRawRuleSetCondition (cs ! i) = Inr (rs ! i)))) \<and>
   (is_condition (JObject ps) \<longrightarrow>
     (\<exists>l. getRawRuleSetLogicalConditions (JObject ps) = Inr l \<and>
          getRawRuleSetCondition (JObject ps) =
            Inr (RawRuleSetCondition ''logical'' None None None (Some [l])))) \<and>
   getRawRuleSetCondition (JStr s) =
     Inr (RawRuleSetCondition ''string'' (Some s) None None None)"
proof (intro conjI impI)
  show "getRawRuleSetCondition (JRegExp (RegExp src fl)) =
     Inr (RawRuleSetCondition ''regexp'' None (Some src) None None)"
    by (simp add: raw_regexp_def)
next
  assume "is_condition (JArray cs)"
  then obtain r where "getRawRuleSetCondition (JArray cs) = Inr r"
    using getRawRuleSetCondition_total by blast
  then obtain rs where rs: "array_map getRawRuleSetCondition cs = Inr rs"
    by (cases "array_map getRawRuleSetCondition cs") auto
  then have "list_all2 (\<lambda>c r. getRawRuleSetCondition c = Inr r) cs rs"
    by (simp add: array_map_Inr_iff)
  then have "length rs = length cs"
    and "\<forall>i<length cs. getRawRuleSetCondition (cs ! i) = Inr (rs ! i)"
    by (simp_all add: list_all2_conv_all_nth)
  with rs show "\<exists>rs. getRawRuleSetCondition (JArray cs) =
             Inr (RawRuleSetCondition ''array'' None None (Some rs) None) \<and>
           length rs = length cs \<and>
           (\<forall>i<length cs. getRawRuleSetCondition (cs ! i) = Inr (rs ! i))"
    by (simp add: raw_array_def)
next
  assume "is_condition (JObject ps)"
  then obtain l where "getRawRuleSetLogicalConditions (JObject ps) = Inr l"
    using getRawRuleSetLogicalConditions_total by blast
  then show "\<exists>l. getRawRuleSetLogicalConditions (JObject ps) = Inr l \<and>
          getRawRuleSetCondition (JObject ps) =
            Inr (RawRuleSetCondition ''logical'' None None None (Some [l]))"
    by (simp add: raw_logical_def)
next
  show "getRawRuleSetCondition (JStr s) =
     Inr (RawRuleSetCondition ''string'' (Some s) None None None)"
    by (simp add: raw_string_def)
qed

theorem getRawRuleSetCondition_variants_witness:
  "getRawRuleSetCondition (JRegExp (RegExp ''[.]js$'' ''i'')) =
     Inr (RawRuleSetCondition ''regexp'' None (Some ''[.]js$'') None None) \<and>
   is_condition (JArray [JStr ''a'', JRegExp (RegExp ''b'' ''g'')]) \<and>
   getRawRuleSetCondition (JArray [JStr ''a'', JRegExp (RegExp ''b'' ''g'')]) =
     Inr (RawRuleSetCondition ''array'' None None
       (Some [RawRuleSetCondition ''string'' (Some ''a'') None None None,
              RawRuleSetCondition ''regexp'' None (Some ''b'') None None]) None) \<and>
   is_condition (JObject [(''or'', JArray [JStr ''x''])]) \<and>
   getRawRuleSetCondition (JObject [(''or'', JArray [JStr ''x''])]) =
     Inr (RawRuleSetCondition ''logical'' None None None
       (Some [RawRuleSetLogicalConditions None
          (Some [RawRuleSetCondition ''string'' (Some ''x'') None None None]) None])) \<and>
   getRawRuleSetCondition (JStr ''src'') =
     Inr (RawRuleSetCondition ''string'' (Some ''src'') None None None)"
  using getRawRuleSetCondition_variants [of "''[.]js$''" "''i''"
      "[JStr ''a'', JRegExp (RegExp ''b'' ''g'')]" "[(''or'', JArray [JStr ''x''])]" "''src''"]
  by (simp add: getRawRuleSetLogicalConditions_JObject map_if_truthy_def
      raw_string_def raw_regexp_def raw_array_def raw_logical_def)

lemma getRawRuleSetLogicalConditions_JFunction:
  "getRawRuleSetLogicalConditions JFunction = Inr (RawRuleSetLogicalConditions None None None)"
  by (subst getRawRuleSetLogicalConditions.simps) (simp add: map_if_truthy_def)

text \<open>
  Claim C4, as stated, fails. The claim has the encoder reject every value that is not a
  string, a pattern, an array or a plain object. The guard of the last branch is
  \<^verbatim>\<open>condition instanceof Object\<close>, which a function passes: a function is none of the
  four shapes, and the encoder returns a logical variant for it, all three keys absent.
\<close>

theorem getRawRuleSetCondition_function_counterexample:
  "typeof JFunction \<noteq> ''string'' \<and> \<not> instanceof_RegExp JFunction \<and>
   \<not> Array_isArray JFunction \<and> \<not> is_plain_object JFunction \<and>
   getRawRuleSetCondition JFunction =
     Inr (RawRuleSetCondition ''logical'' None None None
       (Some [RawRuleSetLogicalConditions None None None]))"
  by (simp add: getRawRuleSetLogicalConditions_JFunction raw_logical_def)

text \<open>
  Claim C4, amended. For every condition value that is not a string and not an instance of
  \<^verbatim>\<open>Object\<close> (that is \<^verbatim>\<open>undefined\<close>, \<^verbatim>\<open>null\<close>, a boolean or a number), the condition
  encoder throws the error \<^verbatim>\<open>unreachable: condition should be one of string, RegExp,
  Array, Object\<close> and returns no encoding. Every instance of \<^verbatim>\<open>Object\<close> that is not a
  pattern or an array, a function included, takes the branch of the logical-combination
  object: the result is that of the logical encoder, wrapped in a one-element list.
\<close>

theorem getRawRuleSetCondition_unsupported:
  "(typeof c \<noteq> ''string'' \<and> \<not> instanceof_Object c \<longrightarrow>
     getRawRuleSetCondition c =
       Inl (Error ''unreachable: condition should be one of string, RegExp, Array, Object'')) \<and>
   (instanceof_Object c \<and> \<not> instanceof_RegExp c \<and> \<not> Array_isArray c \<longrightarrow>
     getRawRuleSetCondition c =
       (case getRawRuleSetLogicalConditions c of
          Inl e \<Rightarrow> Inl e
        | Inr l \<Rightarrow> Inr (RawRuleSetCondition ''logical'' None None None (Some [l]))))"
  by (cases c) (simp_all add: unreachable_def raw_logical_def split: sum.splits)

theorem getRawRuleSetCondition_unsupported_witness:
  "getRawRuleSetCondition JNull =
     Inl (Error ''unreachable: condition should be one of string, RegExp, Array, Object'') \<and>
   getRawRuleSetCondition (JNum 7) =
     Inl (Error ''unreachable: condition should be one of string, RegExp, Array, Object'') \<and>
   getRawRuleSetCondition (JObject []) =
     Inr (RawRuleSetCondition ''logical'' None None None
       (Some [RawRuleSetLogicalConditions None None None]))"
  using getRawRuleSetCondition_unsupported [of JNull]
    getRawRuleSetCondition_unsupported [of "JNum 7"]
    getRawRuleSetCondition_unsupported [of "JObject []"]
  by (simp add: getRawRuleSetLogicalConditions_JObject map_if_truthy_def)

section \<open>Properties of the logical encoder\<close>

lemma map_if_truthy_Inr:
  assumes "map_if_truthy n f v = Inr r"
  shows "(\<not> truthy v \<longrightarrow> r = None) \<and>
         (\<forall>cs. v = JArray cs \<longrightarrow> (\<exists>rs. r = Some rs \<and> list_all2 (\<lambda>c r. f c = Inr r) cs rs))"
  using assms unfolding map_if_truthy_def
  by (auto split: if_splits sum.splits simp: array_map_Inr_iff)

text \<open>
  Claim C5, as stated, fails. The claim has the \<^verbatim>\<open>not\<close> child of a logical object encoded
  recursively. The guard is the truthiness of \<^verbatim>\<open>logical.not\<close>: a \<^verbatim>\<open>not\<close> child that is
  the empty string is a condition, its encoding is the string variant of the empty string,
  and the output has no \<^verbatim>\<open>not\<close> key.
\<close>

theorem getRawRuleSetLogicalConditions_not_counterexample:
  "is_condition (JObject [(''not'', JStr [])]) \<and>
   get_prop (JObject [(''not'', JStr [])]) ''not'' = JStr [] \<and>
   getRawRuleSetCondition (JStr []) =
     Inr (RawRuleSetCondition ''string'' (Some []) None None None) \<and>
   getRawRuleSetLogicalConditions (JObject [(''not'', JStr [])]) =
     Inr (RawRuleSetLogicalConditions None None None)"
  by (simp add: getRawRuleSetLogicalConditions_JObject map_if_truthy_def raw_string_def)

text \<open>
  Claim C5, amended. For every logical-combination object, the logical encoder returns a
  record of the three optional keys \<^verbatim>\<open>and\<close>, \<^verbatim>\<open>or\<close>, \<^verbatim>\<open>not\<close>. A key absent in the
  input is absent in the output, never an empty list; an \<^verbatim>\<open>and\<close> or \<^verbatim>\<open>or\<close> list is
  encoded element by element in the same order; a \<^verbatim>\<open>not\<close> child other than the empty
  string is encoded recursively, and a \<^verbatim>\<open>not\<close> child that is the empty string is
  omitted like an absent one. In particular an input with only \<^verbatim>\<open>or\<close> has neither
  \<^verbatim>\<open>and\<close> nor \<^verbatim>\<open>not\<close> in its output.
\<close>

theorem getRawRuleSetLogicalConditions_keys:
  assumes "is_condition (JObject ps)"
  shows "\<exists>l. getRawRuleSetLogicalConditions (JObject ps) = Inr l \<and>
    (get_prop (JObject ps) ''and'' = JUndefined \<longrightarrow> and_matcher l = None) \<and>
    (\<forall>cs. get_prop (JObject ps) ''and'' = JArray cs \<longrightarrow>
       (\<exists>rs. and_matcher l = Some rs \<and>
             list_all2 (\<lambda>c r. getRawRuleSetCondition c = Inr r) cs rs)) \<and>
    (get_prop (JObject ps) ''or'' = JUndefined \<longrightarrow> or_matcher l = None) \<and>
    (\<forall>cs. get_prop (JObject ps) ''or'' = JArray cs \<longrightarrow>
       (\<exists>rs. or_matcher l = Some rs \<and>
             list_all2 (\<lambda>c r. getRawRuleSetCondition c = Inr r) cs rs)) \<and>
    (get_prop (JObject ps) ''not'' = JUndefined \<or> get_prop (JObject ps) ''not'' = JStr []
       \<longrightarrow> not_matcher l = None) \<and>
    (get_prop (JObject ps) ''not'' \<noteq> JUndefined \<and> get_prop (JObject ps) ''not'' \<noteq> JStr []
       \<longrightarrow> (\<exists>r. getRawRuleSetCondition (get_prop (JObject ps) ''not'') = Inr r \<and>
               not_matcher l = Some r))"
proof -
  let ?a = "get_prop (JObject ps) ''and''"
  let ?b = "get_prop (JObject ps) ''or''"
  let ?n = "get_prop (JObject ps) ''not''"
  from assms obtain l where l: "getRawRuleSetLogicalConditions (JObject ps) = Inr l"
    using getRawRuleSetLogicalConditions_total by blast
  then obtain a b n
    where a: "map_if_truthy ''logical.and'' getRawRuleSetCondition ?a = Inr a"
      and b: "map_if_truthy ''logical.or'' getRawRuleSetCondition ?b = Inr b"
      and n: "(if truthy ?n then map_sum id Some (getRawRuleSetCondition ?n) else Inr None)
        = Inr n"
      and l_eq: "l = RawRuleSetLogicalConditions a b n"
    by (auto simp: getRawRuleSetLogicalConditions_JObject split: sum.splits)
  from assms have wn: "?n = JUndefined \<or> is_condition ?n" by simp
  have tn: "truthy ?n \<longleftrightarrow> ?n \<noteq> JUndefined \<and> ?n \<noteq> JStr []"
    using wn by (cases ?n) auto
  have not_none: "?n = JUndefined \<or> ?n = JStr [] \<longrightarrow> n = None"
    using n tn by (auto split: if_splits)
  have not_some: "?n \<noteq> JUndefined \<and> ?n \<noteq> JStr [] \<longrightarrow>
      (\<exists>r. getRawRuleSetCondition ?n = Inr r \<and> n = Some r)"
    using n tn by (cases "getRawRuleSetCondition ?n") (auto split: if_splits)
  show ?thesis
    using l l_eq map_if_truthy_Inr [OF a] map_if_truthy_Inr [OF b] not_none not_some
    by simp
qed

theorem getRawRuleSetLogicalConditions_keys_witness:
  "is_condition (JObject [(''or'', JArray [JStr ''x'', JRegExp (RegExp ''y'' ''i'')])]) \<and>
   getRawRuleSetLogicalConditions
       (JObject [(''or'', JArray [JStr ''x'', JRegExp (RegExp ''y'' ''i'')])]) =
     Inr (RawRuleSetLogicalConditions None
       (Some [RawRuleSetCondition ''string'' (Some ''x'') None None None,
              RawRuleSetCondition ''regexp'' None (Some ''y'') None None]) None)"
  using getRawRuleSetLogicalConditions_keys
    [of "[(''or'', JArray [JStr ''x'', JRegExp (RegExp ''y'' ''i'')])]"]
  by (simp add: getRawRuleSetLogicalConditions_JObject map_if_truthy_def
      raw_string_def raw_regexp_def)

section \<open>Properties of the rule compiler\<close>

lemma sum_bind_Inr_iff:
  "sum_bind m f = Inr r \<longleftrightarrow> (\<exists>x. m = Inr x \<and> f x = Inr r)"
  by (cases m) (simp_all add: sum_bind_def)

lemma sum_bind_Inl_iff:
  "sum_bind m f = Inl e \<longleftrightarrow> m = Inl e \<or> (\<exists>x. m = Inr x \<and> f x = Inl e)"
  by (cases m) (simp_all add: sum_bind_def)

lemma encode_if_truthy_Inr: "encode_if_truthy c = Inr r \<longleftrightarrow> field_kept c r"
  by (cases "getRawRuleSetCondition c")
    (auto simp: encode_if_truthy_def field_kept_def split: option.splits)

lemma truthy_optional_condition:
  "optional_condition c \<Longrightarrow> truthy c \<longleftrightarrow> c \<noteq> JUndefined \<and> c \<noteq> JStr []"
  by (cases c) (auto simp: optional_condition_def)

lemma encode_if_truthy_total:
  "optional_condition c \<Longrightarrow> \<exists>r. encode_if_truthy c = Inr r"
  using getRawRuleSetCondition_total [of c]
  by (auto simp: encode_if_truthy_def optional_condition_def)

lemma getRawModuleRule_unfold:
  assumes "getRawModuleRule uses rule options = Inr raw"
  obtains test incl excl resource resourceQuery u issuer oneOf
  where "encode_if_truthy (rule_test rule) = Inr test"
    and "encode_if_truthy (rule_include rule) = Inr incl"
    and "encode_if_truthy (rule_exclude rule) = Inr excl"
    and "encode_if_truthy (rule_resource rule) = Inr resource"
    and "encode_if_truthy (rule_resourceQuery rule) = Inr resourceQuery"
    and "uses (nullish_coalesce (rule_use rule) (JArray [])) options = Inr u"
    and "encode_if_truthy (rule_issuer rule) = Inr issuer"
    and "(case rule_oneOf rule of
            None \<Rightarrow> Inr None
          | Some rs \<Rightarrow>
              map_sum id Some (array_map (\<lambda>i. getRawModuleRule uses i options) rs))
         = Inr oneOf"
    and "raw = RawModuleRule test incl excl resource resourceQuery (rule_sideEffects rule) u
            (rule_type rule) (rule_parser rule) (rule_generator rule) (rule_resolve rule)
            issuer oneOf"
proof -
  from assms obtain test where 1: "encode_if_truthy (rule_test rule) = Inr test"
    by (subst (asm) getRawModuleRule.simps) (auto simp: sum_bind_Inr_iff)
  from assms 1 obtain incl where 2: "encode_if_truthy (rule_include rule) = Inr incl"
    by (subst (asm) getRawModuleRule.simps) (auto simp: sum_bind_Inr_iff)
  from assms 1 2 obtain excl where 3: "encode_if_truthy (rule_exclude rule) = Inr excl"
    by (subst (asm) getRawModuleRule.simps) (auto simp: sum_bind_Inr_iff)
  from assms 1 2 3 obtain resource where 4: "encode_if_truthy (rule_resource rule) = Inr resource"
    by (subst (asm) getRawModuleRule.simps) (auto simp: sum_bind_Inr_iff)
  from assms 1 2 3 4 obtain resourceQuery
    where 5: "encode_if_truthy (rule_resourceQuery rule) = Inr resourceQuery"
    by (subst (asm) getRawModuleRule.simps) (auto simp: sum_bind_Inr_iff)
  from assms 1 2 3 4 5 obtain u
    where 6: "uses (nullish_coalesce (rule_use rule) (JArray [])) options = Inr u"
    by (subst (asm) getRawModuleRule.simps)
      (cases "uses (nullish_coalesce (rule_use rule) (JArray [])) options",
        auto simp: sum_bind_def)
  from assms 1 2 3 4 5 6 obtain issuer where 7: "encode_if_truthy (rule_issuer rule) = Inr issuer"
    by (subst (asm) getRawModuleRule.simps) (auto simp: sum_bind_Inr_iff)
  from assms 1 2 3 4 5 6 7 obtain oneOf
    where 8: "(case rule_oneOf rule of
            None \<Rightarrow> Inr None
          | Some rs \<Rightarrow>
              map_sum id Some (array_map (\<lambda>i. getRawModuleRule uses i options) rs))
         = Inr oneOf"
    by (subst (asm) getRawModuleRule.simps) (auto simp: sum_bind_Inr_iff)
  from assms 1 2 3 4 5 6 7 8
  have "raw = RawModuleRule test incl excl resource resourceQuery (rule_sideEffects rule) u
            (rule_type rule) (rule_parser rule) (rule_generator rule) (rule_resolve rule)
            issuer oneOf"
    by (subst (asm) getRawModuleRule.simps) (simp add: sum_bind_def)
  with 1 2 3 4 5 6 7 8 show thesis by (rule that)
qed

lemma getRawModuleRule_fields:
  assumes "getRawModuleRule uses rule options = Inr raw"
  shows "field_kept (rule_test rule) (raw_test raw) \<and>
    field_kept (rule_include rule) (raw_include raw) \<and>
    field_kept (rule_exclude rule) (raw_exclude raw) \<and>
    field_kept (rule_resource rule) (raw_resource raw) \<and>
    field_kept (rule_resourceQuery rule) (raw_resourceQuery raw) \<and>
    field_kept (rule_issuer rule) (raw_issuer raw)"
  using assms by (elim getRawModuleRule_unfold) (simp add: encode_if_truthy_Inr)

lemma getRawModuleRule_passthrough:
  assumes "getRawModuleRule uses rule options = Inr raw"
  shows "raw_sideEffects raw = rule_sideEffects rule \<and>
    raw_type raw = rule_type rule \<and>
    raw_parser raw = rule_parser rule \<and>
    raw_generator raw = rule_generator rule \<and>
    raw_resolve raw = rule_resolve rule \<and>
    uses (nullish_coalesce (rule_use rule) (JArray [])) options = Inr (raw_use raw)"
  using assms by (elim getRawModuleRule_unfold) simp

lemma map_sum_Some_Inr:
  "map_sum id Some m = Inr r \<longleftrightarrow> (\<exists>x. m = Inr x \<and> r = Some x)"
  by (cases m) auto

lemma getRawModuleRule_oneOf:
  assumes "getRawModuleRule uses rule options = Inr raw"
  shows "(rule_oneOf rule = None \<longrightarrow> raw_oneOf raw = None) \<and>
    (\<forall>rs. rule_oneOf rule = Some rs \<longrightarrow>
      (\<exists>rs'. raw_oneOf raw = Some rs' \<and>
         list_all2 (\<lambda>i r. getRawModuleRule uses i options = Inr r) rs rs'))"
  using assms
  by (elim getRawModuleRule_unfold)
    (auto simp: array_map_Inr_iff map_sum_Some_Inr)

lemma fold_max_map_cong:
  "list_all2 (\<lambda>x y. f x = g y) xs ys \<Longrightarrow> fold max (map f xs) (n::nat) = fold max (map g ys) n"
  by (induction xs ys arbitrary: n rule: list_all2_induct) simp_all

lemma getRawModuleRule_depth:
  "getRawModuleRule uses rule options = Inr raw \<Longrightarrow> raw_depth raw = rule_depth rule"
proof (induction rule arbitrary: raw rule: rule_depth.induct)
  case (1 rule)
  show ?case
  proof (cases "rule_oneOf rule")
    case None
    with getRawModuleRule_oneOf [OF "1.prems"] have "raw_oneOf raw = None" by simp
    with None show ?thesis by (simp add: raw_depth.simps rule_depth.simps)
  next
    case (Some rs)
    with getRawModuleRule_oneOf [OF "1.prems"] obtain rs'
      where rs': "raw_oneOf raw = Some rs'"
        and all: "list_all2 (\<lambda>i r. getRawModuleRule uses i options = Inr r) rs rs'"
      by auto
    have "list_all2 (\<lambda>i r. rule_depth i = raw_depth r) rs rs'"
      using all
    proof (rule list.rel_mono_strong)
      fix i r
      assume "i \<in> set rs" and "getRawModuleRule uses i options = Inr r"
      then show "rule_depth i = raw_depth r"
        using "1.IH" [OF Some] by simp
    qed
    then have "fold max (map rule_depth rs) 0 = fold max (map raw_depth rs') 0"
      by (rule fold_max_map_cong)
    with Some rs' show ?thesis by (simp add: raw_depth.simps rule_depth.simps)
  qed
qed

lemma getRawModuleRule_total:
  assumes uses: "\<And>v. \<exists>u. uses v options = Inr u"
  shows "is_rule rule \<Longrightarrow> \<exists>raw. getRawModuleRule uses rule options = Inr raw"
proof (induction rule rule: rule_depth.induct)
  case (1 rule)
  from "1.prems" have wt: "optional_condition (rule_test rule)"
    "optional_condition (rule_include rule)" "optional_condition (rule_exclude rule)"
    "optional_condition (rule_resource rule)" "optional_condition (rule_resourceQuery rule)"
    "optional_condition (rule_issuer rule)"
    by (simp_all add: is_rule.simps)
  from wt(1) obtain test where 1: "encode_if_truthy (rule_test rule) = Inr test"
    using encode_if_truthy_total by blast
  from wt(2) obtain incl where 2: "encode_if_truthy (rule_include rule) = Inr incl"
    using encode_if_truthy_total by blast
  from wt(3) obtain excl where 3: "encode_if_truthy (rule_exclude rule) = Inr excl"
    using encode_if_truthy_total by blast
  from wt(4) obtain resource where 4: "encode_if_truthy (rule_resource rule) = Inr resource"
    using encode_if_truthy_total by blast
  from wt(5) obtain resourceQuery
    where 5: "encode_if_truthy (rule_resourceQuery rule) = Inr resourceQuery"
    using encode_if_truthy_total by blast
  from wt(6) obtain issuer where 7: "encode_if_truthy (rule_issuer rule) = Inr issuer"
    using encode_if_truthy_total by blast
  from uses obtain u
    where 6: "uses (nullish_coalesce (rule_use rule) (JArray [])) options = Inr u"
    by blast
  have "\<exists>oneOf. (case rule_oneOf rule of
            None \<Rightarrow> Inr None
          | Some rs \<Rightarrow>
              map_sum id Some (array_map (\<lambda>i. getRawModuleRule uses i options) rs))
         = Inr oneOf"
  proof (cases "rule_oneOf rule")
    case None
    then show ?thesis by simp
  next
    case (Some rs)
    with "1.prems" have "list_all is_rule rs" by (simp add: is_rule.simps)
    with "1.IH" [OF Some]
    have "\<And>i. i \<in> set rs \<Longrightarrow> \<exists>r. getRawModuleRule uses i options = Inr r"
      by (auto simp: list_all_iff)
    then have "\<exists>rs'. array_map (\<lambda>i. getRawModuleRule uses i options) rs = Inr rs'"
      by (rule array_map_total)
    with Some show ?thesis by auto
  qed
  then obtain oneOf where 8: "(case rule_oneOf rule of
            None \<Rightarrow> Inr None
          | Some rs \<Rightarrow>
              map_sum id Some (array_map (\<lambda>i. getRawModuleRule uses i options) rs))
         = Inr oneOf" ..
  show ?case
    by (subst getRawModuleRule.simps) (simp add: 1 2 3 4 5 6 7 8 sum_bind_def)
qed


text \<open>
  Claim C2, as stated, fails. The claim has each condition field present in the output
  exactly when it is present in the input. The guard of each field is its truthiness: a
  rule whose \<^verbatim>\<open>test\<close> is the empty string has the field, the field is a condition, and
  the compiled rule has no \<^verbatim>\<open>test\<close>.
\<close>

theorem getRawModuleRule_empty_test_counterexample:
  "rule_test empty_string_rule \<noteq> JUndefined \<and> is_condition (rule_test empty_string_rule) \<and>
   (\<exists>raw. getRawModuleRule echo_uses empty_string_rule () = Inr raw \<and> raw_test raw = None)"
proof -
  have "getRawModuleRule echo_uses empty_string_rule () =
     Inr (RawModuleRule None None None None None JUndefined (JArray []) JUndefined JUndefined
            JUndefined JUndefined None None)"
    by code_simp
  then show ?thesis by simp
qed

text \<open>
  Claim C2, amended. Compiling a module rule preserves its structure. Each of the six
  condition fields (\<^verbatim>\<open>test\<close>, \<^verbatim>\<open>include\<close>, \<^verbatim>\<open>exclude\<close>, \<^verbatim>\<open>resource\<close>,
  \<^verbatim>\<open>resourceQuery\<close>, \<^verbatim>\<open>issuer\<close>) is present in the output exactly when the input's is
  truthy, which for a well-typed field means present and not the empty string; it is then
  the condition encoder's encoding, and it is omitted otherwise. The passthrough fields keep
  their values, the loader chain is the collaborator's result on \<^verbatim>\<open>use ?? []\<close>, an absent
  \<^verbatim>\<open>oneOf\<close> stays absent, and a \<^verbatim>\<open>oneOf\<close> list is compiled element by element into a
  list of the same length and order, so that the depth of \<^verbatim>\<open>oneOf\<close> nesting is the same.
  A well-typed rule is always compiled when the collaborator does not throw.
\<close>

theorem getRawModuleRule_structure:
  "(is_rule rule \<and> (\<forall>v. \<exists>u. uses v options = Inr u) \<longrightarrow>
      (\<exists>raw. getRawModuleRule uses rule options = Inr raw)) \<and>
   (\<forall>raw. getRawModuleRule uses rule options = Inr raw \<longrightarrow>
      field_kept (rule_test rule) (raw_test raw) \<and>
      field_kept (rule_include rule) (raw_include raw) \<and>
      field_kept (rule_exclude rule) (raw_exclude raw) \<and>
      field_kept (rule_resource rule) (raw_resource raw) \<and>
      field_kept (rule_resourceQuery rule) (raw_resourceQuery raw) \<and>
      field_kept (rule_issuer rule) (raw_issuer raw) \<and>
      raw_sideEffects raw = rule_sideEffects rule \<and>
      raw_type raw = rule_type rule \<and>
      raw_parser raw = rule_parser rule \<and>
      raw_generator raw = rule_generator rule \<and>
      raw_resolve raw = rule_resolve rule \<and>
      uses (nullish_coalesce (rule_use rule) (JArray [])) options = Inr (raw_use raw) \<and>
      (rule_oneOf rule = None \<longrightarrow> raw_oneOf raw = None) \<and>
      (\<forall>rs. rule_oneOf rule = Some rs \<longrightarrow>
         (\<exists>rs'. raw_oneOf raw = Some rs' \<and>
            list_all2 (\<lambda>i r. getRawModuleRule uses i options = Inr r) rs rs')) \<and>
      raw_depth raw = rule_depth rule) \<and>
   (\<forall>c. optional_condition c \<longrightarrow> truthy c = (c \<noteq> JUndefined \<and> c \<noteq> JStr []))"
proof -
  have total: "is_rule rule \<and> (\<forall>v. \<exists>u. uses v options = Inr u) \<longrightarrow>
      (\<exists>raw. getRawModuleRule uses rule options = Inr raw)"
    using getRawModuleRule_total [of uses options rule] by blast
  have shape: "field_kept (rule_test rule) (raw_test raw) \<and>
      field_kept (rule_include rule) (raw_include raw) \<and>
      field_kept (rule_exclude rule) (raw_exclude raw) \<and>
      field_kept (rule_resource rule) (raw_resource raw) \<and>
      field_kept (rule_resourceQuery rule) (raw_resourceQuery raw) \<and>
      field_kept (rule_issuer rule) (raw_issuer raw) \<and>
      raw_sideEffects raw = rule_sideEffects rule \<and>
      raw_type raw = rule_type rule \<and>
      raw_parser raw = rule_parser rule \<and>
      raw_generator raw = rule_generator rule \<and>
      raw_resolve raw = rule_resolve rule \<and>
      uses (nullish_coalesce (rule_use rule) (JArray [])) options = Inr (raw_use raw) \<and>
      (rule_oneOf rule = None \<longrightarrow> raw_oneOf raw = None) \<and>
      (\<forall>rs. rule_oneOf rule = Some rs \<longrightarrow>
         (\<exists>rs'. raw_oneOf raw = Some rs' \<and>
            list_all2 (\<lambda>i r. getRawModuleRule uses i options = Inr r) rs rs')) \<and>
      raw_depth raw = rule_depth rule"
    if r: "getRawModuleRule uses rule options = Inr raw" for raw
    using getRawModuleRule_fields [OF r] getRawModuleRule_passthrough [OF r]
      getRawModuleRule_oneOf [OF r] getRawModuleRule_depth [OF r]
    by simp
  have falsy: "\<forall>c. optional_condition c \<longrightarrow> truthy c = (c \<noteq> JUndefined \<and> c \<noteq> JStr [])"
    using truthy_optional_condition by blast
  from total shape falsy show ?thesis by blast
qed

theorem getRawModuleRule_structure_witness:
  "is_rule nested_rule \<and>
   getRawModuleRule echo_uses nested_rule () =
     Inr (RawModuleRule None None None None None JUndefined (JArray []) JUndefined JUndefined
            JUndefined JUndefined None
       (Some [RawModuleRule (Some (raw_regexp ''[.]js$'')) None
                (Some (raw_string ''node_modules'')) None None (JBool False) (JArray [])
                (JStr ''javascript/auto'') JUndefined JUndefined JUndefined None None,
              RawModuleRule None None None None None JUndefined (JArray []) JUndefined
                JUndefined JUndefined JUndefined None None])) \<and>
   raw_depth (RawModuleRule None None None None None JUndefined (JArray []) JUndefined JUndefined
            JUndefined JUndefined None
       (Some [RawModuleRule (Some (raw_regexp ''[.]js$'')) None
                (Some (raw_string ''node_modules'')) None None (JBool False) (JArray [])
                (JStr ''javascript/auto'') JUndefined JUndefined JUndefined None None,
              RawModuleRule None None None None None JUndefined (JArray []) JUndefined
                JUndefined JUndefined JUndefined None None])) = rule_depth nested_rule \<and>
   rule_depth nested_rule = 1"
proof -
  have wt: "is_rule nested_rule" by code_simp
  have ev: "getRawModuleRule echo_uses nested_rule () =
     Inr (RawModuleRule None None None None None JUndefined (JArray []) JUndefined JUndefined
            JUndefined JUndefined None
       (Some [RawModuleRule (Some (raw_regexp ''[.]js$'')) None
                (Some (raw_string ''node_modules'')) None None (JBool False) (JArray [])
                (JStr ''javascript/auto'') JUndefined JUndefined JUndefined None None,
              RawModuleRule None None None None None JUndefined (JArray []) JUndefined
                JUndefined JUndefined JUndefined None None]))"
    by code_simp
  have d: "rule_depth nested_rule = 1" by code_simp
  from getRawModuleRule_structure [of nested_rule echo_uses "()"] ev
  have "raw_depth (RawModuleRule None None None None None JUndefined (JArray []) JUndefined
            JUndefined JUndefined JUndefined None
       (Some [RawModuleRule (Some (raw_regexp ''[.]js$'')) None
                (Some (raw_string ''node_modules'')) None None (JBool False) (JArray [])
                (JStr ''javascript/auto'') JUndefined JUndefined JUndefined None None,
              RawModuleRule None None None None None JUndefined (JArray []) JUndefined
                JUndefined JUndefined JUndefined None None])) = rule_depth nested_rule"
    by blast
  with wt ev d show ?thesis by simp
qed

text \<open>
  Claim C9. A condition field of a module rule that is present but equal to the empty
  string is omitted from the compiled rule, and a \<^verbatim>\<open>not\<close> field of a logical object
  that is the empty string is omitted from the encoded logical object: the truthiness guard
  treats the empty string as absent, although the condition encoder would encode it as a
  string variant.
\<close>

theorem empty_string_condition_omitted:
  "(getRawModuleRule uses rule options = Inr raw \<longrightarrow>
      (rule_test rule = JStr [] \<longrightarrow> raw_test raw = None) \<and>
      (rule_include rule = JStr [] \<longrightarrow> raw_include raw = None) \<and>
      (rule_exclude rule = JStr [] \<longrightarrow> raw_exclude raw = None) \<and>
      (rule_resource rule = JStr [] \<longrightarrow> raw_resource raw = None) \<and>
      (rule_resourceQuery rule = JStr [] \<longrightarrow> raw_resourceQuery raw = None) \<and>
      (rule_issuer rule = JStr [] \<longrightarrow> raw_issuer raw = None)) \<and>
   (getRawRuleSetLogicalConditions (JObject ps) = Inr l \<longrightarrow>
      get_prop (JObject ps) ''not'' = JStr [] \<longrightarrow> not_matcher l = None) \<and>
   getRawRuleSetCondition (JStr []) = Inr (RawRuleSetCondition ''string'' (Some []) None None None)"
proof -
  have kept: "field_kept (JStr []) r \<Longrightarrow> r = None" for r
    by (cases r) (simp_all add: field_kept_def)
  have rules: "(rule_test rule = JStr [] \<longrightarrow> raw_test raw = None) \<and>
      (rule_include rule = JStr [] \<longrightarrow> raw_include raw = None) \<and>
      (rule_exclude rule = JStr [] \<longrightarrow> raw_exclude raw = None) \<and>
      (rule_resource rule = JStr [] \<longrightarrow> raw_resource raw = None) \<and>
      (rule_resourceQuery rule = JStr [] \<longrightarrow> raw_resourceQuery raw = None) \<and>
      (rule_issuer rule = JStr [] \<longrightarrow> raw_issuer raw = None)"
    if r: "getRawModuleRule uses rule options = Inr raw"
    using getRawModuleRule_fields [OF r] kept by metis
  have logical: "not_matcher l = None"
    if "getRawRuleSetLogicalConditions (JObject ps) = Inr l"
      and "get_prop (JObject ps) ''not'' = JStr []"
    using that
    by (auto simp: getRawRuleSetLogicalConditions_JObject split: sum.splits)
  have "getRawRuleSetCondition (JStr []) =
      Inr (RawRuleSetCondition ''string'' (Some []) None None None)"
    by (simp add: raw_string_def)
  with rules logical show ?thesis by blast
qed

theorem empty_string_condition_omitted_witness:
  "rule_test empty_string_rule = JStr [] \<and>
   getRawModuleRule echo_uses empty_string_rule () =
     Inr (RawModuleRule None None None None None JUndefined (JArray []) JUndefined JUndefined
            JUndefined JUndefined None None) \<and>
   get_prop (JObject [(''or'', JArray []), (''not'', JStr [])]) ''not'' = JStr [] \<and>
   getRawRuleSetLogicalConditions (JObject [(''or'', JArray []), (''not'', JStr [])]) =
     Inr (RawRuleSetLogicalConditions None (Some []) None)"
proof -
  have ev: "getRawModuleRule echo_uses empty_string_rule () =
     Inr (RawModuleRule None None None None None JUndefined (JArray []) JUndefined JUndefined
            JUndefined JUndefined None None)"
    by code_simp
  have l: "\<exists>l. getRawRuleSetLogicalConditions (JObject [(''or'', JArray []), (''not'', JStr [])]) =
      Inr l \<and> and_matcher l = None \<and> or_matcher l = Some []"
    by (simp add: getRawRuleSetLogicalConditions_JObject map_if_truthy_def)
  then obtain l
    where l: "getRawRuleSetLogicalConditions (JObject [(''or'', JArray []), (''not'', JStr [])]) =
      Inr l" and ao: "and_matcher l = None" "or_matcher l = Some []"
    by blast
  from empty_string_condition_omitted
    [of echo_uses empty_string_rule "()" _ "[(''or'', JArray []), (''not'', JStr [])]" l] l
  have "not_matcher l = None" by simp
  with ao have "l = RawRuleSetLogicalConditions None (Some []) None"
    by (cases l) simp
  with l ev show ?thesis by simp
qed

section \<open>Properties of the module section\<close>

text \<open>No assertion fails inside the condition encoder, the logical encoder or the rule
  compiler: their errors are the unreachable error, type errors and what the collaborator
  throws.\<close>

lemma array_map_Inl:
  "array_map f xs = Inl e \<Longrightarrow> \<exists>x\<in>set xs. f x = Inl e"
  by (induction xs) (auto split: sum.splits)

lemma map_if_truthy_Inl:
  "map_if_truthy n f v = Inl e \<Longrightarrow>
     (\<exists>x\<in>set (elements v). Array_isArray v \<and> f x = Inl e) \<or> (\<exists>t. e = TypeError t)"
  unfolding map_if_truthy_def
  by (auto split: if_splits sum.splits dest: array_map_Inl)

lemma encoders_no_assertion:
  "getRawRuleSetCondition c \<noteq> Inl (AssertionError m)"
  "getRawRuleSetLogicalConditions l \<noteq> Inl (AssertionError m)"
proof (induction c and l rule: getRawRuleSetCondition_getRawRuleSetLogicalConditions.induct)
  case (1 condition)
  show ?case
  proof
    assume e: "getRawRuleSetCondition condition = Inl (AssertionError m)"
    show False
    proof (cases condition)
      case (JArray xs)
      with e have "array_map getRawRuleSetCondition xs = Inl (AssertionError m)"
        by (auto split: sum.splits)
      then obtain x where "x \<in> set xs" "getRawRuleSetCondition x = Inl (AssertionError m)"
        by (auto dest: array_map_Inl)
      with "1.IH"(1) [of x] JArray show False by simp
    next
      case (JObject ps)
      with e have "getRawRuleSetLogicalConditions condition = Inl (AssertionError m)"
        by (auto split: sum.splits)
      with "1.IH"(2) JObject show False by simp
    next
      case JFunction
      with e have "getRawRuleSetLogicalConditions condition = Inl (AssertionError m)"
        by (auto split: sum.splits)
      with "1.IH"(2) JFunction show False by simp
    qed (use e in \<open>auto simp: unreachable_def\<close>)
  qed
next
  case (2 logical)
  let ?a = "map_if_truthy ''logical.and'' getRawRuleSetCondition (get_prop logical ''and'')"
  let ?b = "map_if_truthy ''logical.or'' getRawRuleSetCondition (get_prop logical ''or'')"
  let ?n = "get_prop logical ''not''"
  show ?case
  proof
    assume e: "getRawRuleSetLogicalConditions logical = Inl (AssertionError m)"
    then have nn: "\<not> (logical = JUndefined \<or> logical = JNull)"
      by (subst (asm) getRawRuleSetLogicalConditions.simps) (auto split: if_splits)
    show False
    proof (cases ?a)
      case (Inl ea)
      with e nn have "?a = Inl (AssertionError m)"
        by (subst (asm) getRawRuleSetLogicalConditions.simps) simp
      with "2.IH"(1) [OF nn] show False by (auto dest!: map_if_truthy_Inl)
    next
      case a: (Inr a)
      show False
      proof (cases ?b)
        case (Inl eb)
        with e nn a have "?b = Inl (AssertionError m)"
          by (subst (asm) getRawRuleSetLogicalConditions.simps) simp
        with "2.IH"(2) [OF nn a] show False by (auto dest!: map_if_truthy_Inl)
      next
        case b: (Inr b)
        from e nn a b have t: "truthy ?n"
          and "getRawRuleSetCondition ?n = Inl (AssertionError m)"
          by (subst (asm) getRawRuleSetLogicalConditions.simps;
              cases "getRawRuleSetCondition ?n"; simp split: if_splits)+
        with "2.IH"(3) [OF nn a b t] show False by simp
      qed
    qed
  qed
qed

lemma encode_if_truthy_no_assertion:
  "encode_if_truthy c \<noteq> Inl (AssertionError m)"
  using encoders_no_assertion(1) [of c m]
  by (cases "getRawRuleSetCondition c") (auto simp: encode_if_truthy_def)

lemma getRawModuleRule_no_assertion:
  "getRawModuleRule uses rule options \<noteq> Inl (AssertionError m)"
proof (induction rule rule: rule_depth.induct)
  case (1 rule)
  have oneOf: "(case rule_oneOf rule of
            None \<Rightarrow> Inr None
          | Some rs \<Rightarrow>
              map_sum id Some (array_map (\<lambda>i. getRawModuleRule uses i options) rs))
         \<noteq> Inl (AssertionError m)"
  proof (cases "rule_oneOf rule")
    case None
    then show ?thesis by simp
  next
    case (Some rs)
    have "array_map (\<lambda>i. getRawModuleRule uses i options) rs \<noteq> Inl (AssertionError m)"
      using "1.IH" [OF Some] by (auto dest!: array_map_Inl)
    with Some show ?thesis
      by (cases "array_map (\<lambda>i. getRawModuleRule uses i options) rs") auto
  qed
  have u: "(case uses (nullish_coalesce (rule_use rule) (JArray [])) options of
                 Inl v \<Rightarrow> Inl (Thrown v)
               | Inr u \<Rightarrow> Inr u) \<noteq> Inl (AssertionError m)"
    by (simp split: sum.splits)
  show ?case
    apply (subst getRawModuleRule.simps)
    apply (simp only: sum_bind_Inl_iff encode_if_truthy_no_assertion oneOf u)
    apply simp
    done
qed

text \<open>
  Claim C6. When the default-rule list of the module options is absent, the module compiler
  throws the assertion error of its guard, whatever the rules and the collaborator are, so
  no rule is compiled; when the list is present, that error is not thrown.
\<close>

theorem getRawModule_guard:
  "(module_defaultRules m = None \<longrightarrow>
      getRawModule uses m options =
        Inl (AssertionError (Some ''module.defaultRules should not be nil after defaults''))) \<and>
   (module_defaultRules m \<noteq> None \<longrightarrow>
      getRawModule uses m options \<noteq>
        Inl (AssertionError (Some ''module.defaultRules should not be nil after defaults'')))"
proof (intro conjI impI)
  assume "module_defaultRules m = None"
  then show "getRawModule uses m options =
        Inl (AssertionError (Some ''module.defaultRules should not be nil after defaults''))"
    by (simp add: getRawModule_def assert_def isNil_def sum_bind_def)
next
  assume "module_defaultRules m \<noteq> None"
  then obtain ds where ds: "module_defaultRules m = Some ds" by auto
  have "array_map (\<lambda>i. getRawModuleRule uses i options) (ds @ module_rules m) \<noteq>
      Inl (AssertionError e)" for e
    by (auto dest!: array_map_Inl simp: getRawModuleRule_no_assertion)
  with ds show "getRawModule uses m options \<noteq>
        Inl (AssertionError (Some ''module.defaultRules should not be nil after defaults''))"
    by (auto simp: getRawModule_def assert_def isNil_def sum_bind_def object_of_def
        split: sum.splits)
qed

theorem getRawModule_guard_witness:
  "getRawModule echo_uses undefaulted_module () =
     Inl (AssertionError (Some ''module.defaultRules should not be nil after defaults'')) \<and>
   getRawModule echo_uses sample_module () \<noteq>
     Inl (AssertionError (Some ''module.defaultRules should not be nil after defaults''))"
  using getRawModule_guard [of undefaulted_module echo_uses "()"]
    getRawModule_guard [of sample_module echo_uses "()"]
  by simp

lemma array_map_append:
  "array_map f (xs @ ys) = Inr rs \<longleftrightarrow>
     (\<exists>rx ry. rs = rx @ ry \<and> array_map f xs = Inr rx \<and> array_map f ys = Inr ry)"
proof (induction xs arbitrary: rs)
  case Nil
  show ?case by auto
next
  case (Cons x xs)
  show ?case
  proof (cases "f x")
    case (Inl e)
    then show ?thesis by simp
  next
    case (Inr y)
    show ?thesis
    proof (cases "array_map f (xs @ ys)")
      case (Inl e)
      with Inr Cons.IH show ?thesis by (auto split: sum.splits)
    next
      case r: (Inr zs)
      with Cons.IH [of zs] obtain rx ry
        where "zs = rx @ ry" "array_map f xs = Inr rx" "array_map f ys = Inr ry"
        by auto
      with Inr r show ?thesis by auto
    qed
  qed
qed

text \<open>
  Claim C3. With default rules \<open>ds\<close> and user rules \<open>module_rules m\<close>, the compiled
  rule list is the compiled default rules followed by the compiled user rules, each rule
  compiled by the rule compiler, in the order of the input and with nothing removed (the
  list has as many rules as both inputs together); the parser configuration is passed
  through. The module compiler returns whenever every rule compiles.
\<close>

theorem getRawModule_order:
  assumes "module_defaultRules m = Some ds"
  shows "((\<forall>i\<in>set (ds @ module_rules m). \<exists>r. getRawModuleRule uses i options = Inr r) \<longrightarrow>
           (\<exists>raw. getRawModule uses m options = Inr raw)) \<and>
         (\<forall>raw. getRawModule uses m options = Inr raw \<longrightarrow>
           (\<exists>rd ru. raw_rules raw = rd @ ru \<and>
              list_all2 (\<lambda>i r. getRawModuleRule uses i options = Inr r) ds rd \<and>
              list_all2 (\<lambda>i r. getRawModuleRule uses i options = Inr r) (module_rules m) ru) \<and>
           length (raw_rules raw) = length ds + length (module_rules m) \<and>
           raw_module_parser raw = module_parser m)"
proof (intro conjI allI impI)
  assume "\<forall>i\<in>set (ds @ module_rules m). \<exists>r. getRawModuleRule uses i options = Inr r"
  then have "\<exists>rs. array_map (\<lambda>i. getRawModuleRule uses i options) (ds @ module_rules m) = Inr rs"
    by (intro array_map_total) blast
  with assms show "\<exists>raw. getRawModule uses m options = Inr raw"
    by (auto simp: getRawModule_def assert_def isNil_def sum_bind_def object_of_def)
next
  fix raw
  assume "getRawModule uses m options = Inr raw"
  with assms obtain rs
    where rs: "array_map (\<lambda>i. getRawModuleRule uses i options) (ds @ module_rules m) = Inr rs"
      and raw: "raw = \<lparr>raw_rules = rs, raw_module_parser = module_parser m\<rparr>"
    by (auto simp: getRawModule_def assert_def isNil_def sum_bind_def object_of_def
        split: sum.splits)
  from rs obtain rd ru where split: "rs = rd @ ru"
    "array_map (\<lambda>i. getRawModuleRule uses i options) ds = Inr rd"
    "array_map (\<lambda>i. getRawModuleRule uses i options) (module_rules m) = Inr ru"
    by (auto simp: array_map_append)
  then have l: "list_all2 (\<lambda>i r. getRawModuleRule uses i options = Inr r) ds rd"
    "list_all2 (\<lambda>i r. getRawModuleRule uses i options = Inr r) (module_rules m) ru"
    by (simp_all add: array_map_Inr_iff)
  with split raw show "\<exists>rd ru. raw_rules raw = rd @ ru \<and>
              list_all2 (\<lambda>i r. getRawModuleRule uses i options = Inr r) ds rd \<and>
              list_all2 (\<lambda>i r. getRawModuleRule uses i options = Inr r) (module_rules m) ru"
    by auto
  from split raw show "length (raw_rules raw) = length ds + length (module_rules m)"
    using list_all2_lengthD [OF l(1)] list_all2_lengthD [OF l(2)] by simp
  from raw show "raw_module_parser raw = module_parser m" by simp
qed


theorem getRawModule_order_witness:
  "module_defaultRules sample_module = Some [script_rule, empty_string_rule] \<and>
   getRawModule echo_uses sample_module () =
     Inr \<lparr>raw_rules = [raw_script_rule, raw_empty_string_rule, raw_script_rule],
          raw_module_parser = JStr ''parser''\<rparr> \<and>
   getRawModuleRule echo_uses script_rule () = Inr raw_script_rule \<and>
   getRawModuleRule echo_uses empty_string_rule () = Inr raw_empty_string_rule \<and>
   length (raw_rules \<lparr>raw_rules = [raw_script_rule, raw_empty_string_rule, raw_script_rule],
          raw_module_parser = JStr ''parser''\<rparr>) =
     length [script_rule, empty_string_rule] + length (module_rules sample_module)"
proof -
  have d: "module_defaultRules sample_module = Some [script_rule, empty_string_rule]"
    by simp
  have s: "getRawModuleRule echo_uses script_rule () = Inr raw_script_rule"
    by code_simp
  have e: "getRawModuleRule echo_uses empty_string_rule () = Inr raw_empty_string_rule"
    by code_simp
  have "\<exists>raw. getRawModule echo_uses sample_module () = Inr raw"
    using getRawModule_order [OF d, of echo_uses "()"] s e by simp
  then obtain raw where raw: "getRawModule echo_uses sample_module () = Inr raw" ..
  with getRawModule_order [OF d, of echo_uses "()"] obtain rd ru
    where rules: "raw_rules raw = rd @ ru"
      and rd: "list_all2 (\<lambda>i r. getRawModuleRule echo_uses i () = Inr r)
        [script_rule, empty_string_rule] rd"
      and ru: "list_all2 (\<lambda>i r. getRawModuleRule echo_uses i () = Inr r)
        (module_rules sample_module) ru"
      and parser: "raw_module_parser raw = module_parser sample_module"
    by blast
  from rd s e have "rd = [raw_script_rule, raw_empty_string_rule]"
    by (auto simp: list_all2_Cons1)
  moreover from ru s have "ru = [raw_script_rule]"
    by (auto simp: list_all2_Cons1)
  ultimately have "raw = \<lparr>raw_rules = [raw_script_rule, raw_empty_string_rule, raw_script_rule],
          raw_module_parser = JStr ''parser''\<rparr>"
    using rules parser by (cases raw) simp
  with raw d s e show ?thesis by simp
qed

section \<open>Properties of the optimization section\<close>

lemma set_prop_fresh:
  "k \<notin> fst ` set obj \<Longrightarrow> set_prop k v obj = obj @ [(k, v)]"
  by (induction obj) auto

lemma fold_set_prop_distinct:
  "distinct (map fst (obj @ es)) \<Longrightarrow>
     fold (\<lambda>e obj. set_prop (fst e) (snd e) obj) es obj = obj @ es"
proof (induction es arbitrary: obj)
  case Nil
  show ?case by simp
next
  case (Cons e es)
  from Cons.prems have "fst e \<notin> fst ` set obj" by auto
  then have "set_prop (fst e) (snd e) obj = obj @ [e]" by (simp add: set_prop_fresh)
  moreover from Cons.prems have "distinct (map fst ((obj @ [e]) @ es))" by simp
  ultimately show ?case using Cons.IH [of "obj @ [e]"] by simp
qed

lemma Object_fromEntries_distinct:
  "distinct (map fst es) \<Longrightarrow> Object_fromEntries es = es"
  using fold_set_prop_distinct [of "[]" es] by (simp add: Object_fromEntries_def)

lemma getRawOptimization_Inr:
  "getRawOptimization optimization = Inr raw \<longleftrightarrow>
     opt_moduleIds optimization \<noteq> None \<and> opt_removeAvailableModules optimization \<noteq> None \<and>
     opt_sideEffects optimization \<noteq> None \<and>
     raw = \<lparr>raw_opt_splitChunks = map_option getRawSplitChunksOptions (opt_splitChunks optimization),
          raw_opt_moduleIds = opt_moduleIds optimization,
          raw_opt_removeAvailableModules = opt_removeAvailableModules optimization,
          raw_opt_sideEffects = String (opt_sideEffects optimization)\<rparr>"
  by (cases "opt_splitChunks optimization")
    (auto simp: getRawOptimization_def assert_def isNil_def sum_bind_def)

lemma getRawSplitChunksOptions_groups:
  assumes "sc_cacheGroups sc = Some groups" and "distinct (map fst groups)"
  shows "raw_sc_cacheGroups (getRawSplitChunksOptions sc) =
    Some (map (\<lambda>e. (fst e, normalizedGroup (snd e))) groups)"
proof -
  have "distinct (map fst (map (\<lambda>e. (fst e, normalizedGroup (snd e))) groups))"
    using assms(2) by (simp add: comp_def)
  then show ?thesis
    using assms(1)
    by (simp add: getRawSplitChunksOptions_def Object_entries_def Object_fromEntries_distinct)
qed

text \<open>
  Claim C8. When the split-chunks configuration is absent, the split-chunks field of the
  optimization output is absent. When it is present with named cache groups, the output has
  one cache group per name, under the same names in the same order, each with the five
  fields: the source text of the pattern if the group has one, the name, the priority, the
  minimum number of chunks and the chunk-selection mode. The optimization encoder returns
  whenever \<^verbatim>\<open>moduleIds\<close>, \<^verbatim>\<open>removeAvailableModules\<close> and \<^verbatim>\<open>sideEffects\<close> are present.
\<close>

theorem getRawOptimization_splitChunks:
  "(opt_moduleIds optimization \<noteq> None \<and> opt_removeAvailableModules optimization \<noteq> None \<and>
    opt_sideEffects optimization \<noteq> None \<longrightarrow>
      (\<exists>raw. getRawOptimization optimization = Inr raw)) \<and>
   (\<forall>raw. getRawOptimization optimization = Inr raw \<longrightarrow>
      (opt_splitChunks optimization = None \<longrightarrow> raw_opt_splitChunks raw = None) \<and>
      (\<forall>sc groups.
         opt_splitChunks optimization = Some sc \<and> sc_cacheGroups sc = Some groups \<and>
         distinct (map fst groups) \<longrightarrow>
           (\<exists>rsc rgroups.
              raw_opt_splitChunks raw = Some rsc \<and>
              raw_sc_cacheGroups rsc = Some rgroups \<and>
              map fst rgroups = map fst groups \<and>
              list_all2
                (\<lambda>g r. snd r =
                   \<lparr>raw_group_test = map_option source (group_test (snd g)),
                    raw_group_name = group_name (snd g),
                    raw_group_priority = group_priority (snd g),
                    raw_group_minChunks = group_minChunks (snd g),
                    raw_group_chunks = group_chunks (snd g)\<rparr>)
                groups rgroups)))"
proof (intro conjI allI impI)
  assume "opt_moduleIds optimization \<noteq> None \<and> opt_removeAvailableModules optimization \<noteq> None \<and>
    opt_sideEffects optimization \<noteq> None"
  then show "\<exists>raw. getRawOptimization optimization = Inr raw"
    by (simp add: getRawOptimization_Inr)
next
  fix raw
  assume "getRawOptimization optimization = Inr raw" and "opt_splitChunks optimization = None"
  then show "raw_opt_splitChunks raw = None"
    by (simp add: getRawOptimization_Inr)
next
  fix raw sc groups
  assume raw: "getRawOptimization optimization = Inr raw"
    and sc: "opt_splitChunks optimization = Some sc \<and> sc_cacheGroups sc = Some groups \<and>
         distinct (map fst groups)"
  let ?rgroups = "map (\<lambda>e. (fst e, normalizedGroup (snd e))) groups"
  from raw sc have 1: "raw_opt_splitChunks raw = Some (getRawSplitChunksOptions sc)"
    by (simp add: getRawOptimization_Inr)
  from sc have 2: "raw_sc_cacheGroups (getRawSplitChunksOptions sc) = Some ?rgroups"
    by (simp add: getRawSplitChunksOptions_groups)
  have 3: "map fst ?rgroups = map fst groups" by (simp add: comp_def)
  have 4: "list_all2
                (\<lambda>g r. snd r =
                   \<lparr>raw_group_test = map_option source (group_test (snd g)),
                    raw_group_name = group_name (snd g),
                    raw_group_priority = group_priority (snd g),
                    raw_group_minChunks = group_minChunks (snd g),
                    raw_group_chunks = group_chunks (snd g)\<rparr>)
                groups ?rgroups"
    by (simp add: list_all2_conv_all_nth normalizedGroup_def map_option_case)
  from 1 2 3 4 show "\<exists>rsc rgroups.
              raw_opt_splitChunks raw = Some rsc \<and>
              raw_sc_cacheGroups rsc = Some rgroups \<and>
              map fst rgroups = map fst groups \<and>
              list_all2
                (\<lambda>g r. snd r =
                   \<lparr>raw_group_test = map_option source (group_test (snd g)),
                    raw_group_name = group_name (snd g),
                    raw_group_priority = group_priority (snd g),
                    raw_group_minChunks = group_minChunks (snd g),
                    raw_group_chunks = group_chunks (snd g)\<rparr>)
                groups rgroups"
    by blast
qed

theorem getRawOptimization_splitChunks_witness:
  "getRawOptimization (sample_optimization None) =
     Inr \<lparr>raw_opt_splitChunks = None, raw_opt_moduleIds = Some ''named'',
          raw_opt_removeAvailableModules = Some True, raw_opt_sideEffects = ''true''\<rparr> \<and>
   distinct (map fst [(''vendors'', vendors_group)]) \<and>
   (\<exists>raw rsc.
      getRawOptimization (sample_optimization (Some vendors_splitChunks)) = Inr raw \<and>
      raw_opt_splitChunks raw = Some rsc \<and>
      raw_sc_cacheGroups rsc =
        Some [(''vendors'',
          \<lparr>raw_group_test = Some ''node_modules'', raw_group_name = Some ''vendors'',
           raw_group_priority = Some 10, raw_group_minChunks = Some 1,
           raw_group_chunks = Some ''all''\<rparr>)])"
proof -
  have 1: "getRawOptimization (sample_optimization None) =
     Inr \<lparr>raw_opt_splitChunks = None, raw_opt_moduleIds = Some ''named'',
          raw_opt_removeAvailableModules = Some True, raw_opt_sideEffects = ''true''\<rparr>"
    using getRawOptimization_splitChunks [of "sample_optimization None"]
    by (auto simp: getRawOptimization_Inr)
  from getRawOptimization_splitChunks [of "sample_optimization (Some vendors_splitChunks)"]
  obtain raw rsc rgroups
    where raw: "getRawOptimization (sample_optimization (Some vendors_splitChunks)) = Inr raw"
      and rsc: "raw_opt_splitChunks raw = Some rsc"
      and rg: "raw_sc_cacheGroups rsc = Some rgroups"
      and keys: "map fst rgroups = [''vendors'']"
      and vals: "list_all2
                (\<lambda>g r. snd r =
                   \<lparr>raw_group_test = map_option source (group_test (snd g)),
                    raw_group_name = group_name (snd g),
                    raw_group_priority = group_priority (snd g),
                    raw_group_minChunks = group_minChunks (snd g),
                    raw_group_chunks = group_chunks (snd g)\<rparr>)
                [(''vendors'', vendors_group)] rgroups"
    by auto
  from keys vals have "rgroups = [(''vendors'',
          \<lparr>raw_group_test = Some ''node_modules'', raw_group_name = Some ''vendors'',
           raw_group_priority = Some 10, raw_group_minChunks = Some 1,
           raw_group_chunks = Some ''all''\<rparr>)]"
    by (cases rgroups) (auto simp: list_all2_Cons1)
  with raw rsc rg 1 show ?thesis by auto
qed

text \<open>
  Claim C10. For split-chunks options that are present and have no cache groups, the encoded
  split-chunks record holds an empty cache-group record, not an absent one, also as the
  split-chunks field of the optimization output: the whole section absent gives an absent
  field, cache groups absent give an empty record.
\<close>

theorem getRawSplitChunksOptions_no_cacheGroups:
  "(sc_cacheGroups sc = None \<longrightarrow>
      raw_sc_cacheGroups (getRawSplitChunksOptions sc) = Some []) \<and>
   (sc_cacheGroups sc = None \<and> opt_splitChunks optimization = Some sc \<and>
    getRawOptimization optimization = Inr raw \<longrightarrow>
      (\<exists>rsc. raw_opt_splitChunks raw = Some rsc \<and> raw_sc_cacheGroups rsc = Some []))"
  by (auto simp: getRawSplitChunksOptions_def getRawOptimization_Inr)

theorem getRawSplitChunksOptions_no_cacheGroups_witness:
  "sc_cacheGroups bare_splitChunks = None \<and>
   raw_sc_cacheGroups (getRawSplitChunksOptions bare_splitChunks) = Some [] \<and>
   (\<exists>raw rsc.
      getRawOptimization (sample_optimization (Some bare_splitChunks)) = Inr raw \<and>
      raw_opt_splitChunks raw = Some rsc \<and> raw_sc_cacheGroups rsc = Some [])"
proof -
  obtain raw
    where raw: "getRawOptimization (sample_optimization (Some bare_splitChunks)) = Inr raw"
    by (simp add: getRawOptimization_Inr)
  from getRawSplitChunksOptions_no_cacheGroups
    [of bare_splitChunks "sample_optimization (Some bare_splitChunks)" raw] raw
  show ?thesis by simp
qed

section \<open>Properties of the scalar sections\<close>

lemma map_of_distinct_append:
  "k \<notin> fst ` set pre \<Longrightarrow> map_of (pre @ (k, v) # suf) k = Some v"
  by (induction pre) auto

lemma getRawEntry_loop_distinct:
  assumes "entry = pre @ suf" and "distinct (map fst entry)"
  shows "getRawEntry_loop entry (map fst suf) (map (\<lambda>e. (fst e, rawEntryItem (snd e))) pre) =
    Inr (map (\<lambda>e. (fst e, rawEntryItem (snd e))) entry)"
  using assms
proof (induction suf arbitrary: pre)
  case Nil
  then show ?case by simp
next
  case (Cons e suf)
  obtain k d where e: "e = (k, d)" by (cases e)
  from Cons.prems e have fresh: "k \<notin> fst ` set pre" by auto
  then have "map_of (pre @ (k, d) # suf) k = Some d"
    by (rule map_of_distinct_append)
  with Cons.prems(1) e have look: "map_of entry k = Some d"
    by simp
  from fresh have "k \<notin> fst ` set (map (\<lambda>e. (fst e, rawEntryItem (snd e))) pre)"
    by (simp add: image_comp comp_def)
  then have upd: "set_prop k (rawEntryItem d) (map (\<lambda>e. (fst e, rawEntryItem (snd e))) pre) =
      map (\<lambda>e. (fst e, rawEntryItem (snd e))) (pre @ [e])"
    using e by (simp add: set_prop_fresh)
  from Cons.prems have "entry = (pre @ [e]) @ suf" by simp
  from Cons.IH [OF this Cons.prems(2)] look upd e show ?case
    by (simp add: sum_bind_def object_of_def)
qed

lemma getRawEntry_distinct:
  "distinct (map fst entry) \<Longrightarrow>
     getRawEntry entry = Inr (map (\<lambda>e. (fst e, rawEntryItem (snd e))) entry)"
  using getRawEntry_loop_distinct [of entry "[]" entry]
  by (simp add: getRawEntry_def Object_keys_def)

lemma getRawEntry_loop_total:
  "set keys \<subseteq> fst ` set entry \<Longrightarrow> \<exists>r. getRawEntry_loop entry keys raw = Inr r"
proof (induction keys arbitrary: raw)
  case Nil
  show ?case by simp
next
  case (Cons k keys)
  from Cons.prems have "k \<in> fst ` set entry" by simp
  then obtain d where "map_of entry k = Some d"
    by (metis domD dom_map_of_conv_image_fst)
  with Cons show ?case by (simp add: sum_bind_def object_of_def)
qed

lemma getRawEntry_total: "\<exists>raw. getRawEntry entry = Inr raw"
  using getRawEntry_loop_total [of "map fst entry" entry "[]"]
  by (simp add: getRawEntry_def Object_keys_def)

lemma getRawOutput_eq:
  "getRawOutput output =
     (if output_complete output then
        Inr \<lparr>raw_path = output_path output,
          raw_publicPath = output_publicPath output,
          raw_assetModuleFilename = output_assetModuleFilename output,
          raw_filename = output_filename output,
          raw_chunkFilename = output_chunkFilename output,
          raw_cssFilename = output_cssFilename output,
          raw_cssChunkFilename = output_cssChunkFilename output,
          raw_uniqueName = output_uniqueName output,
          raw_library = output_library output,
          raw_strictModuleErrorHandling = output_strictModuleErrorHandling output\<rparr>
      else Inl (AssertionError (Some ''fields should not be nil after defaults'')))"
  by (simp add: getRawOutput_def output_complete_def assert_def isNil_def sum_bind_def)

lemma getRawSnapshotOptions_eq:
  "getRawSnapshotOptions snapshot =
     (case (snapshot_resolve snapshot, snapshot_module snapshot) of
        (Some r, Some m) \<Rightarrow>
          if section_complete (Some r) \<and> section_complete (Some m)
          then Inr \<lparr>raw_snapshot_resolve = r, raw_snapshot_module = m\<rparr>
          else Inl (AssertionError None)
      | _ \<Rightarrow> Inl (AssertionError None))"
  by (cases "snapshot_resolve snapshot"; cases "snapshot_module snapshot")
    (auto simp: getRawSnapshotOptions_def section_complete_def assert_def isNil_def
      sum_bind_def object_of_def)


text \<open>
  Claim C7, as stated, fails. The claim has every scalar section encoder validate its
  required fields and fail with a message that names the missing ones. The entry encoder
  validates nothing: an entry without an import list is encoded with an absent import.
  The experiments encoder fails on a missing flag with an assertion that has no message,
  and the message of the output encoder names no field.
\<close>

theorem scalar_sections_counterexample:
  "getRawEntry [(''main'', \<lparr>entry_import = None, entry_runtime = None\<rparr>)] =
     Inr [(''main'', \<lparr>raw_import = None, raw_runtime = None\<rparr>)] \<and>
   getRawExperiments \<lparr>lazyCompilation = None, incrementalRebuild = Some False\<rparr> =
     Inl (AssertionError None) \<and>
   getRawOutput (sample_output None) =
     Inl (AssertionError (Some ''fields should not be nil after defaults''))"
  by (simp add: getRawEntry_def Object_keys_def sum_bind_def object_of_def rawEntryItem_def
      getRawExperiments_def getRawOutput_def assert_def isNil_def)

text \<open>
  Claim C7, amended. The output, snapshot, experiments and node encoders validate their
  required fields and fail at once with an assertion error when one is absent, returning
  the fields unchanged otherwise: the output encoder with the message \<^verbatim>\<open>fields should not
  be nil after defaults\<close>, which names no field, the other three with no message. The entry,
  target and externals encoders validate nothing and do not fail: an entry map is encoded
  key by key with the import list as it is, an absent target is the empty list, a non-empty
  target string a one-element list, a target list itself, and an externals string the
  record that maps the name to itself, an externals record itself.
\<close>

theorem scalar_sections_validation:
  "getRawOutput output =
     (if output_complete output then
        Inr \<lparr>raw_path = output_path output,
          raw_publicPath = output_publicPath output,
          raw_assetModuleFilename = output_assetModuleFilename output,
          raw_filename = output_filename output,
          raw_chunkFilename = output_chunkFilename output,
          raw_cssFilename = output_cssFilename output,
          raw_cssChunkFilename = output_cssChunkFilename output,
          raw_uniqueName = output_uniqueName output,
          raw_library = output_library output,
          raw_strictModuleErrorHandling = output_strictModuleErrorHandling output\<rparr>
      else Inl (AssertionError (Some ''fields should not be nil after defaults''))) \<and>
   (\<not> (section_complete (snapshot_resolve snapshot) \<and>
        section_complete (snapshot_module snapshot)) \<longrightarrow>
      getRawSnapshotOptions snapshot = Inl (AssertionError None)) \<and>
   (\<forall>r m. snapshot_resolve snapshot = Some r \<and> snapshot_module snapshot = Some m \<and>
      section_complete (Some r) \<and> section_complete (Some m) \<longrightarrow>
      getRawSnapshotOptions snapshot =
        Inr \<lparr>raw_snapshot_resolve = r, raw_snapshot_module = m\<rparr>) \<and>
   getRawExperiments experiments =
     (if lazyCompilation experiments \<noteq> None \<and> incrementalRebuild experiments \<noteq> None
      then Inr experiments else Inl (AssertionError None)) \<and>
   getRawNode node =
     (if node_dirname node \<noteq> None then Inr \<lparr>raw_dirname = String (node_dirname node)\<rparr>
      else Inl (AssertionError None)) \<and>
   (\<exists>raw. getRawEntry entry = Inr raw) \<and>
   (distinct (map fst entry) \<longrightarrow>
      getRawEntry entry =
        Inr (map (\<lambda>e. (fst e,
               \<lparr>raw_import = entry_import (snd e),
                raw_runtime =
                  (case entry_runtime (snd e) of
                     Some (RuntimeName runtime) \<Rightarrow> Some runtime
                   | Some RuntimeFalse \<Rightarrow> None
                   | None \<Rightarrow> None)\<rparr>)) entry)) \<and>
   getRawTarget None = [] \<and>
   getRawTarget (Some (TargetString (c # cs))) = [c # cs] \<and>
   getRawTarget (Some (TargetArray targets)) = targets \<and>
   getRawExternals (ExternalsString name) = [(name, name)] \<and>
   getRawExternals (ExternalsRecord externals) = externals"
proof -
  have snap1: "getRawSnapshotOptions snapshot = Inl (AssertionError None)"
    if "\<not> (section_complete (snapshot_resolve snapshot) \<and>
        section_complete (snapshot_module snapshot))"
    using that
    by (cases "snapshot_resolve snapshot"; cases "snapshot_module snapshot")
      (auto simp: getRawSnapshotOptions_eq section_complete_def)
  have snap2: "getRawSnapshotOptions snapshot =
        Inr \<lparr>raw_snapshot_resolve = r, raw_snapshot_module = m\<rparr>"
    if "snapshot_resolve snapshot = Some r \<and> snapshot_module snapshot = Some m \<and>
      section_complete (Some r) \<and> section_complete (Some m)" for r m
    using that by (simp add: getRawSnapshotOptions_eq)
  have exp: "getRawExperiments experiments =
     (if lazyCompilation experiments \<noteq> None \<and> incrementalRebuild experiments \<noteq> None
      then Inr experiments else Inl (AssertionError None))"
    by (simp add: getRawExperiments_def assert_def isNil_def sum_bind_def)
  have node: "getRawNode node =
     (if node_dirname node \<noteq> None then Inr \<lparr>raw_dirname = String (node_dirname node)\<rparr>
      else Inl (AssertionError None))"
    by (simp add: getRawNode_def assert_def isNil_def sum_bind_def)
  have entry: "distinct (map fst entry) \<longrightarrow>
      getRawEntry entry =
        Inr (map (\<lambda>e. (fst e,
               \<lparr>raw_import = entry_import (snd e),
                raw_runtime =
                  (case entry_runtime (snd e) of
                     Some (RuntimeName runtime) \<Rightarrow> Some runtime
                   | Some RuntimeFalse \<Rightarrow> None
                   | None \<Rightarrow> None)\<rparr>)) entry)"
    using getRawEntry_distinct [of entry] by (simp add: rawEntryItem_def)
  show ?thesis
    using getRawOutput_eq [of "output"] snap1 snap2 exp node getRawEntry_total [of entry] entry
    by simp
qed

theorem scalar_sections_validation_witness:
  "getRawOutput (sample_output None) =
     Inl (AssertionError (Some ''fields should not be nil after defaults'')) \<and>
   getRawSnapshotOptions
       \<lparr>snapshot_resolve = Some \<lparr>snapshot_timestamp = Some True, snapshot_hash = None\<rparr>,
        snapshot_module = Some \<lparr>snapshot_timestamp = Some True, snapshot_hash = Some False\<rparr>\<rparr> =
     Inl (AssertionError None) \<and>
   getRawExperiments \<lparr>lazyCompilation = Some False, incrementalRebuild = Some True\<rparr> =
     Inr \<lparr>lazyCompilation = Some False, incrementalRebuild = Some True\<rparr> \<and>
   getRawNode \<lparr>node_dirname = None\<rparr> = Inl (AssertionError None) \<and>
   distinct (map fst [(''main'', \<lparr>entry_import = None, entry_runtime = Some RuntimeFalse\<rparr>)]) \<and>
   getRawEntry [(''main'', \<lparr>entry_import = None, entry_runtime = Some RuntimeFalse\<rparr>)] =
     Inr [(''main'', \<lparr>raw_import = None, raw_runtime = None\<rparr>)] \<and>
   getRawTarget (Some (TargetString ''web'')) = [''web''] \<and>
   getRawExternals (ExternalsString ''react'') = [(''react'', ''react'')]"
  using scalar_sections_validation [of "sample_output None"
      "\<lparr>snapshot_resolve = Some \<lparr>snapshot_timestamp = Some True, snapshot_hash = None\<rparr>,
        snapshot_module = Some \<lparr>snapshot_timestamp = Some True, snapshot_hash = Some False\<rparr>\<rparr>"
      "\<lparr>lazyCompilation = Some False, incrementalRebuild = Some True\<rparr>"
      "\<lparr>node_dirname = None\<rparr>"
      "[(''main'', \<lparr>entry_import = None, entry_runtime = Some RuntimeFalse\<rparr>)]"
      "CHR ''w''" "''eb''" "[]" "''react''" "[]"]
  by (simp add: output_complete_def section_complete_def)

end
